theory Spec2Isabelle
  imports Complex_Main "HOL-Library.AList" "HOL-Library.Multiset" "HOL-Library.Log_Nat"
begin

section \<open>The tick engine of Update.ts\<close>

text \<open>
  A shallow embedding of \<^verbatim>\<open>src/scripts/logic/Update.ts\<close>. The module mutates the
  game state and the two tick snapshots \<^verbatim>\<open>Tick.current\<close> and \<^verbatim>\<open>Tick.next\<close> in
  place; here every function takes the state and returns the new one.

  Numbers. The numeric fields of the state hold finite numbers and are reals. The
  transportation router and the warehouse autopilot divide by capacities that may be
  zero or \<^verbatim>\<open>Infinity\<close> and ship the quotients they compute: their arithmetic is
  that of the type \<open>number\<close> below, the binary64 arithmetic of JavaScript with its
  rounding, its infinities and \<^verbatim>\<open>NaN\<close>. The remaining sums, differences and
  products of the module are taken exactly, which is what binary64 gives as long as
  the exact result is representable (integers up to \<open>2^53\<close> in particular). Where
  \<^verbatim>\<open>Infinity\<close> or \<^verbatim>\<open>NaN\<close> would be stored in the state, the model stops with the
  fault \<open>NonFinite\<close>.

  Objects. A JavaScript object that the module iterates over is an association list
  in insertion order; \<^verbatim>\<open>obj[k]\<close> is \<open>map_of obj k\<close>.
\<close>

subsection \<open>Numbers\<close>

text \<open>
  A JavaScript number: a finite binary64 value, an infinity or \<^verbatim>\<open>NaN\<close>. The sign of a
  zero is not kept. It could matter only in a quotient by a negative zero; the divisors
  of this module are a transport capacity, which is a sum that starts from \<open>0\<close> and is
  no negative zero, a fuel amount above the labor left, and the ceiling
  \<^verbatim>\<open>upgradedTransportCapacity\<close>, whose quotient is the labor reserved and is stored in
  the state: an infinite one is the fault \<open>NonFinite\<close> whatever its sign.
\<close>

datatype number = Finite real | PosInf | NegInf | NaN

text \<open>
  Rounding to binary64. \<open>binade x\<close> is the exponent of the power of two at or below
  \<open>\<bar>x\<bar>\<close>; a binary64 value has 53 significant bits and no exponent below \<open>-1022\<close>,
  so the values near \<open>x\<close> are the multiples of \<open>2\<close> to the power
  \<open>max (binade x) (-1022) - 52\<close>. \<open>round64\<close> takes the nearest of them, and of two that
  are equally near the one with the even multiplier.
\<close>

definition binade :: "real \<Rightarrow> int" where
  "binade x = (if 1 \<le> \<bar>x\<bar> then bitlen \<lfloor>\<bar>x\<bar>\<rfloor> - 1 else - bitlen (\<lceil>1 / \<bar>x\<bar>\<rceil> - 1))"

definition pow2 :: "int \<Rightarrow> real" where
  "pow2 p = (if 0 \<le> p then 2 ^ nat p else 1 / 2 ^ nat (- p))"

definition roundEven :: "real \<Rightarrow> int" where
  "roundEven x =
     (if x - of_int \<lfloor>x\<rfloor> < 1 / 2 then \<lfloor>x\<rfloor>
      else if 1 / 2 < x - of_int \<lfloor>x\<rfloor> then \<lfloor>x\<rfloor> + 1
      else if even \<lfloor>x\<rfloor> then \<lfloor>x\<rfloor> else \<lfloor>x\<rfloor> + 1)"

definition round64 :: "real \<Rightarrow> real" where
  "round64 x =
     (if x = 0 then 0
      else of_int (roundEven (x / pow2 (max (binade x) (- 1022) - 52)))
             * pow2 (max (binade x) (- 1022) - 52))"

text \<open>The rounded result of an exact one: beyond the largest binary64 value it is infinite.\<close>

definition rnd :: "real \<Rightarrow> number" where
  "rnd x =
     (if 2 ^ 1024 \<le> round64 x then PosInf
      else if round64 x \<le> - (2 ^ 1024) then NegInf
      else Finite (round64 x))"

text \<open>
  The operators \<^verbatim>\<open>+\<close>, \<^verbatim>\<open>-\<close>, \<^verbatim>\<open>*\<close>, \<^verbatim>\<open>/\<close>, \<^verbatim>\<open>Math.ceil\<close>, \<^verbatim>\<open><=\<close> and \<^verbatim>\<open><\<close> on
  numbers. A comparison with \<^verbatim>\<open>NaN\<close> is false.
\<close>

fun fneg :: "number \<Rightarrow> number" where
  "fneg (Finite a) = Finite (- a)"
| "fneg PosInf = NegInf"
| "fneg NegInf = PosInf"
| "fneg NaN = NaN"

fun fadd :: "number \<Rightarrow> number \<Rightarrow> number" where
  "fadd (Finite a) (Finite b) = rnd (a + b)"
| "fadd NaN y = NaN"
| "fadd x NaN = NaN"
| "fadd PosInf NegInf = NaN"
| "fadd NegInf PosInf = NaN"
| "fadd PosInf y = PosInf"
| "fadd x PosInf = PosInf"
| "fadd NegInf y = NegInf"
| "fadd x NegInf = NegInf"

definition fsub :: "number \<Rightarrow> number \<Rightarrow> number" where
  "fsub x y = fadd x (fneg y)"

fun fmul :: "number \<Rightarrow> number \<Rightarrow> number" where
  "fmul (Finite a) (Finite b) = rnd (a * b)"
| "fmul NaN y = NaN"
| "fmul x NaN = NaN"
| "fmul (Finite a) PosInf = (if a = 0 then NaN else if 0 < a then PosInf else NegInf)"
| "fmul (Finite a) NegInf = (if a = 0 then NaN else if 0 < a then NegInf else PosInf)"
| "fmul PosInf (Finite b) = (if b = 0 then NaN else if 0 < b then PosInf else NegInf)"
| "fmul NegInf (Finite b) = (if b = 0 then NaN else if 0 < b then NegInf else PosInf)"
| "fmul PosInf PosInf = PosInf"
| "fmul NegInf NegInf = PosInf"
| "fmul PosInf NegInf = NegInf"
| "fmul NegInf PosInf = NegInf"

fun fdiv :: "number \<Rightarrow> number \<Rightarrow> number" where
  "fdiv (Finite a) (Finite b) =
     (if b = 0 then (if a = 0 then NaN else if 0 < a then PosInf else NegInf)
      else rnd (a / b))"
| "fdiv NaN y = NaN"
| "fdiv x NaN = NaN"
| "fdiv (Finite a) PosInf = Finite 0"
| "fdiv (Finite a) NegInf = Finite 0"
| "fdiv PosInf (Finite b) = (if 0 \<le> b then PosInf else NegInf)"
| "fdiv NegInf (Finite b) = (if 0 \<le> b then NegInf else PosInf)"
| "fdiv PosInf PosInf = NaN"
| "fdiv PosInf NegInf = NaN"
| "fdiv NegInf PosInf = NaN"
| "fdiv NegInf NegInf = NaN"

fun fceil :: "number \<Rightarrow> number" where
  "fceil (Finite a) = Finite (of_int \<lceil>a\<rceil>)"
| "fceil x = x"

fun fle :: "number \<Rightarrow> number \<Rightarrow> bool" where
  "fle (Finite a) (Finite b) = (a \<le> b)"
| "fle NaN y = False"
| "fle x NaN = False"
| "fle NegInf y = True"
| "fle x PosInf = True"
| "fle x y = False"

fun flt :: "number \<Rightarrow> number \<Rightarrow> bool" where
  "flt (Finite a) (Finite b) = (a < b)"
| "flt NaN y = False"
| "flt x NaN = False"
| "flt PosInf y = False"
| "flt x NegInf = False"
| "flt x y = True"

subsection \<open>Data model\<close>

type_synonym xy = string
type_synonym resource = string
type_synonym btype = string
type_synonym gridpoint = "int \<times> int"
type_synonym position = "real \<times> real"
type_synonym ledger = "(resource \<times> real) list"

datatype fault =
    TypeError    \<comment> \<open>a property of \<^verbatim>\<open>undefined\<close> or \<^verbatim>\<open>null\<close> is read: the call throws\<close>
  | NonFinite    \<comment> \<open>\<^verbatim>\<open>NaN\<close> or \<^verbatim>\<open>Infinity\<close> would be stored in the state\<close>
  | Diverges     \<comment> \<open>a loop never exits: the call does not return\<close>

datatype status = Building | Upgrading | Completed | Paused

datatype reason =
  NotEnoughWorkers | NotEnoughResources | StorageFull | NotOnDeposit | TurnedOff
  | NoActiveTransports

datatype feature = WarehouseUpgrade | Electricity

datatype io_kind = Input | Output

datatype worker_filter = Exclude "resource list" | Include "resource list"

datatype notification =
  CurrentTickChanged | BuildingComplete xy | BuildingProductionComplete xy bool
  | GameStateUpdate | SaveGame | Heartbeat

record transport =
  resource :: resource
  amount :: real
  fuel :: resource
  fuelAmount :: real
  currentFuelAmount :: real
  fromPosition :: position
  toPosition :: position
  fromXy :: xy
  toXy :: xy
  ticksSpent :: real
  ticksRequired :: real
  hasEnoughFuel :: bool

text \<open>
  \<^verbatim>\<open>IBuildingData\<close> with the fields of its variants. A field that only some
  variants carry, and whose presence the module tests (\<^verbatim>\<open>"resourceImports" in building\<close>),
  is an option. \<open>availableResources\<close> is \<^verbatim>\<open>Partial<Record<Resource, Resource>>\<close>:
  a stored \<^verbatim>\<open>undefined\<close> is the entry \<open>None\<close>.
\<close>

record building_data =
  btype :: btype
  status :: status
  level :: real
  desiredLevel :: real
  capacity :: real
  priority :: real
  stockpileCapacity :: real
  electrification :: real
  resources :: ledger
  sellResources :: "resource list"
  availableResources :: "(resource \<times> resource option) list option"
  marketOptions :: nat
  warehouseOptions :: "nat option"
  resourceImports :: "ledger option"

record tile =
  building :: "building_data option"
  explored :: bool
  deposit :: "resource list"

record multiplier =
  mStorage :: "real option"
  mInput :: "real option"
  mOutput :: "real option"
  mWorker :: "real option"
  mSource :: string

text \<open>
  The tick snapshot. \<^verbatim>\<open>globalMultipliers\<close> has one list for every effect kind (its
  type is a record over all of them); \<^verbatim>\<open>playerTradeBuildings\<close> maps a tile to its
  own building object and is kept as the list of these tiles.
\<close>

record tick_data =
  workersAvailable :: ledger
  workersUsed :: ledger
  notProducingReasons :: "(xy \<times> reason) list"
  resourcesByGrid :: "(resource \<times> gridpoint list) list"
  resourcesByXy :: "(resource \<times> xy list) list"
  specialBuildings :: "(btype \<times> xy) list"
  unlockedBuildings :: "btype list"
  buildingMultipliers :: "(btype \<times> multiplier list) list"
  globalMultipliers :: "string \<Rightarrow> (real \<times> string) list"
  tileMultipliers :: "(xy \<times> multiplier list) list"
  playerTradeBuildings :: "xy list"
  electrified :: "(xy \<times> real) list"
  totalValue :: real
  happiness :: real

text \<open>
  The state the module works on: the fields of \<^verbatim>\<open>GameState\<close>, the two snapshots,
  the module variable \<^verbatim>\<open>timeSinceLastTick\<close>, and the calls made into the
  notification sinks, in order. The calls into the renderer (\<^verbatim>\<open>showText\<close>) change
  nothing the module reads and are left out.
\<close>

record state =
  tiles :: "(xy \<times> tile) list"
  transportation :: "(xy \<times> transport list) list"
  unlockedTech :: "string list"
  greatPeople :: "(string \<times> real) list"
  tick :: int
  lastPriceUpdated :: int
  tickCurrent :: tick_data
  tickNext :: tick_data
  timeSinceLastTick :: real
  notifications :: "notification list"

text \<open>
  What the module imports and this repository's sources do not show: the configuration
  tables, the grid, the seeded shuffle and the read-only calculators of
  \<^verbatim>\<open>BuildingLogic\<close>, \<^verbatim>\<open>ResourceLogic\<close> and \<^verbatim>\<open>IntraTickCache\<close>. They are
  parameters: every theorem below holds for all of them.
\<close>

record env =
  isTransportable :: "resource \<Rightarrow> bool"
  canStore :: "resource \<Rightarrow> bool"
  canPrice :: "resource \<Rightarrow> bool"
  resourcePrice :: "resource \<Rightarrow> real option"
  buildingTier :: "btype \<Rightarrow> real option"
  buildingDeposit :: "btype \<Rightarrow> resource list option"
  buildingOutput :: "btype \<Rightarrow> resource \<Rightarrow> bool"
  isNaturalWonder :: "btype \<Rightarrow> bool"
  isSpecialBuilding :: "btype \<Rightarrow> bool"
  canBeElectrified :: "btype \<Rightarrow> bool"
  buildingDefaults :: "btype \<Rightarrow> (building_data \<Rightarrow> building_data) option"
  getBuildingCost :: "building_data \<Rightarrow> ledger"
  getBuildingValue :: "building_data \<Rightarrow> real"
  getBuilderCapacity :: "building_data \<Rightarrow> xy \<Rightarrow> state \<Rightarrow> real"
  getAmountInTransit :: "xy \<Rightarrow> resource \<Rightarrow> state \<Rightarrow> real"
  getAvailableResource :: "xy \<Rightarrow> resource \<Rightarrow> state \<Rightarrow> real"
  getBuildingIO :: "xy \<Rightarrow> io_kind \<Rightarrow> state \<Rightarrow> ledger"
  getWorkersFor :: "xy \<Rightarrow> worker_filter \<Rightarrow> state \<Rightarrow> real"
  totalMultiplierFor :: "xy \<Rightarrow> string \<Rightarrow> real \<Rightarrow> state \<Rightarrow> real"
  getStorageFor :: "xy \<Rightarrow> state \<Rightarrow> real \<times> real"
  getStorageRequired :: "ledger \<Rightarrow> real"
  getStockpileMax :: "building_data \<Rightarrow> real"
  getWarehouseIdleCapacity :: "building_data \<Rightarrow> real"
  getStorageFullBuildings :: "state \<Rightarrow> gridpoint list"
  getMarketPrice :: "resource \<Rightarrow> xy \<Rightarrow> state \<Rightarrow> real"
  getPowerRequired :: "real \<Rightarrow> real"
  hasEnoughResources :: "ledger \<Rightarrow> ledger \<Rightarrow> bool"
  deductResources :: "ledger \<Rightarrow> ledger \<Rightarrow> ledger"
  hasFeature :: "feature \<Rightarrow> state \<Rightarrow> bool"
  hasFlag :: "nat \<Rightarrow> nat \<Rightarrow> bool"
  flagAutopilot :: nat
  flagClearAfterUpdate :: nat
  unlockedResources :: "state \<Rightarrow> resource list"
  shuffle :: "resource list \<Rightarrow> int \<times> xy \<Rightarrow> resource list"
  distance :: "gridpoint \<Rightarrow> gridpoint \<Rightarrow> real"
  xyToPoint :: "xy \<Rightarrow> gridpoint"
  pointToXy :: "gridpoint \<Rightarrow> xy"
  xyToPosition :: "xy \<Rightarrow> position"
  labelResearch :: "string \<Rightarrow> string"
  labelBanking :: string
  labelElectrification :: string
  techName :: "string \<Rightarrow> string"
  techUnlockBuilding :: "string \<Rightarrow> btype list"
  techBuildingMultiplier :: "string \<Rightarrow> (btype \<times> multiplier) list"
  techGlobalMultiplier :: "string \<Rightarrow> (string \<times> real) list"
  tickGreatPerson :: "string \<Rightarrow> real \<Rightarrow> bool \<Rightarrow> state \<Rightarrow> state"
  optionsGreatPeople :: "(string \<times> real) list"
  calculateHappiness :: "state \<Rightarrow> real"
  getScienceFromWorkers :: "state \<Rightarrow> real"
  headquarterXy :: xy
  ticksRequiredFor :: "xy \<Rightarrow> xy \<Rightarrow> real"

subsection \<open>Helpers of Helper.ts and the labor pools\<close>

text \<open>\<^verbatim>\<open>obj[k] ?? 0\<close>.\<close>

definition lookup0 :: "('k \<times> real) list \<Rightarrow> 'k \<Rightarrow> real" where
  "lookup0 obj k = (case map_of obj k of None \<Rightarrow> 0 | Some v \<Rightarrow> v)"

text \<open>
  Modelled from the spec: \<^verbatim>\<open>safeAdd\<close> of Helper.ts, which merges an amount into a
  ledger (a missing entry counts as 0), and \<^verbatim>\<open>safePush\<close>, which appends to the list
  stored under a key (a missing entry counts as the empty list).
\<close>

definition safeAdd :: "('k \<times> real) list \<Rightarrow> 'k \<Rightarrow> real \<Rightarrow> ('k \<times> real) list" where
  "safeAdd obj k v = AList.update k (lookup0 obj k + v) obj"

definition safePush :: "('k \<times> 'v list) list \<Rightarrow> 'k \<Rightarrow> 'v \<Rightarrow> ('k \<times> 'v list) list" where
  "safePush obj k v =
     AList.update k ((case map_of obj k of None \<Rightarrow> [] | Some vs \<Rightarrow> vs) @ [v]) obj"

text \<open>Setting a key of an object whose keys are used as a set: a new key comes last.\<close>

definition addKey :: "'a \<Rightarrow> 'a list \<Rightarrow> 'a list" where
  "addKey x xs = (if x \<in> set xs then xs else xs @ [x])"

text \<open>Modelled from the spec: \<^verbatim>\<open>clamp(value, min, max)\<close> of Helper.ts.\<close>

definition clamp :: "real \<Rightarrow> real \<Rightarrow> real \<Rightarrow> real" where
  "clamp v lo hi = min (max v lo) hi"

text \<open>
  Modelled from the spec: \<^verbatim>\<open>forEach(obj, callback)\<close> of Helper.ts visits the entries
  in order; a callback that returns \<^verbatim>\<open>true\<close> ends the iteration (the module marks
  these returns \<^verbatim>\<open>// break;\<close>), any other return value (\<^verbatim>\<open>false\<close>, marked
  \<^verbatim>\<open>// continue;\<close>, or no return at all) goes on to the next entry. The callback
  here returns that signal with the new state, or a fault.
\<close>

fun forEach ::
  "('k \<times> 'v) list \<Rightarrow> ('k \<Rightarrow> 'v \<Rightarrow> 's \<Rightarrow> fault + (bool \<times> 's)) \<Rightarrow> 's \<Rightarrow> fault + 's" where
  "forEach [] f s = Inr s"
| "forEach ((k, v) # kvs) f s =
     (case f k v s of
        Inl e \<Rightarrow> Inl e
      | Inr (stop, s') \<Rightarrow> if stop then Inr s' else forEach kvs f s')"

text \<open>
  \<^verbatim>\<open>Array.prototype.sort(compare)\<close> is a stable sort: the elements end up ordered by
  a consistent comparator, and elements that compare equal keep their order. The
  model is the stable insertion sort.
\<close>

fun insertBy :: "('a \<Rightarrow> 'a \<Rightarrow> real) \<Rightarrow> 'a \<Rightarrow> 'a list \<Rightarrow> 'a list" where
  "insertBy cmp x [] = [x]"
| "insertBy cmp x (y # ys) = (if cmp x y \<le> 0 then x # y # ys else y # insertBy cmp x ys)"

definition sortBy :: "('a \<Rightarrow> 'a \<Rightarrow> real) \<Rightarrow> 'a list \<Rightarrow> 'a list" where
  "sortBy cmp xs = foldr (insertBy cmp) xs []"

text \<open>
  Modelled from the spec: the labor and power pools are tick-scoped counters that only
  decrease. \<^verbatim>\<open>getAvailableWorkers(res)\<close> reads the pool of \<open>res\<close>: what the current
  snapshot offers less what this tick has reserved so far. \<^verbatim>\<open>useWorkers(res, n, xy)\<close>
  reserves \<open>n\<close> units; it makes no check of its own (the callers test
  \<^verbatim>\<open>getAvailableWorkers\<close> first) and there is no rollback. The tile the reservation
  is attributed to has no effect on the pools.
\<close>

definition getAvailableWorkers :: "state \<Rightarrow> resource \<Rightarrow> real" where
  "getAvailableWorkers st res =
     lookup0 (workersAvailable (tickCurrent st)) res - lookup0 (workersUsed (tickNext st)) res"

definition useWorkers :: "resource \<Rightarrow> real \<Rightarrow> xy option \<Rightarrow> state \<Rightarrow> state" where
  "useWorkers res n k st =
     st\<lparr>tickNext := (tickNext st)\<lparr>workersUsed := safeAdd (workersUsed (tickNext st)) res n\<rparr>\<rparr>"

definition setReason :: "xy \<Rightarrow> reason \<Rightarrow> state \<Rightarrow> state" where
  "setReason k r st =
     st\<lparr>tickNext := (tickNext st)\<lparr>notProducingReasons :=
           AList.update k r (notProducingReasons (tickNext st))\<rparr>\<rparr>"

definition deleteReason :: "xy \<Rightarrow> state \<Rightarrow> state" where
  "deleteReason k st =
     st\<lparr>tickNext := (tickNext st)\<lparr>notProducingReasons :=
           AList.delete k (notProducingReasons (tickNext st))\<rparr>\<rparr>"

text \<open>The building object of a tile is written in place: the tile keeps its other fields.\<close>

definition setBuilding :: "xy \<Rightarrow> building_data \<Rightarrow> state \<Rightarrow> state" where
  "setBuilding k b st =
     st\<lparr>tiles := AList.map_entry k (\<lambda>t. t\<lparr>building := Some b\<rparr>) (tiles st)\<rparr>"

definition notify :: "notification \<Rightarrow> state \<Rightarrow> state" where
  "notify n st = st\<lparr>notifications := notifications st @ [n]\<rparr>"

text \<open>
  Modelled from the spec: \<^verbatim>\<open>getXyBuildings(gs)\<close> of IntraTickCache, the tiles that
  hold a building, each with its building object.
\<close>

definition getXyBuildings :: "state \<Rightarrow> (xy \<times> building_data) list" where
  "getXyBuildings st =
     List.map_filter (\<lambda>(k, t). map_option (\<lambda>b. (k, b)) (building t)) (tiles st)"

subsection \<open>Transportation advancement\<close>

text \<open>
  Modelled from the spec: \<^verbatim>\<open>Vector2.lerp\<close> and the squared length of a difference,
  for the shipment's interpolated position.
\<close>

definition lerp :: "position \<Rightarrow> position \<Rightarrow> real \<Rightarrow> position" where
  "lerp a b t = (fst a + (fst b - fst a) * t, snd a + (snd b - snd a) * t)"

definition lengthSqr :: "position \<Rightarrow> real" where
  "lengthSqr p = fst p * fst p + snd p * snd p"

text \<open>
  The test of lines 203 to 210. With \<^verbatim>\<open>ticksRequired = 0\<close> the quotient is
  \<^verbatim>\<open>NaN\<close> or \<^verbatim>\<open>Infinity\<close>, the interpolated position is not finite and the
  comparison \<^verbatim>\<open><=\<close> is false.
\<close>

definition nearMausoleum :: "position \<Rightarrow> transport \<Rightarrow> bool" where
  "nearMausoleum mah tr =
     (ticksRequired tr \<noteq> 0 \<and>
      (let p = lerp (fromPosition tr) (toPosition tr) (ticksSpent tr / ticksRequired tr)
       in lengthSqr (fst p - fst mah, snd p - snd mah) \<le> 200 * 200))"

definition tickTransportation ::
  "env \<Rightarrow> position option \<Rightarrow> transport \<Rightarrow> state \<Rightarrow> transport \<times> state" where
  "tickTransportation ev mah tr st =
     (if isTransportable ev (fuel tr)
      then (tr\<lparr>ticksSpent := ticksSpent tr + 1, hasEnoughFuel := True\<rparr>, st)
      else
        let tr1 = tr\<lparr>currentFuelAmount := fuelAmount tr\<rparr>;
            tr2 = (case mah of
                     None \<Rightarrow> tr1
                   | Some m \<Rightarrow> if nearMausoleum m tr1 then tr1\<lparr>currentFuelAmount := 0\<rparr> else tr1)
        in if getAvailableWorkers st (fuel tr2) \<ge> currentFuelAmount tr2
           then (tr2\<lparr>ticksSpent := ticksSpent tr2 + 1, hasEnoughFuel := True\<rparr>,
                 useWorkers (fuel tr2) (currentFuelAmount tr2) None st)
           else (tr2\<lparr>hasEnoughFuel := False\<rparr>, st))"

text \<open>
  The fuel amount \<^verbatim>\<open>tickTransportation\<close> leaves in \<^verbatim>\<open>currentFuelAmount\<close> for a record
  whose fuel is a pool: the nominal amount, or nothing near the mausoleum.
\<close>

definition fuelNeed :: "position option \<Rightarrow> transport \<Rightarrow> real" where
  "fuelNeed mah tr =
     (case mah of
        None \<Rightarrow> fuelAmount tr
      | Some m \<Rightarrow> if nearMausoleum m tr then 0 else fuelAmount tr)"

text \<open>
  \<^verbatim>\<open>Tick.current.specialBuildings.MausoleumAtHalicarnassus\<close> is a tile key; the empty
  string is falsy.
\<close>

definition mausoleum :: "env \<Rightarrow> state \<Rightarrow> position option" where
  "mausoleum ev st =
     (case map_of (specialBuildings (tickCurrent st)) ''MausoleumAtHalicarnassus'' of
        None \<Rightarrow> None
      | Some k \<Rightarrow> if k = [] then None else Some (xyToPosition ev k))"

text \<open>
  The body of the \<^verbatim>\<open>filter\<close> callback after the advance (lines 180 to 186): a
  shipment that has arrived is credited to the building of its destination tile, if
  there is one.
\<close>

definition deliver :: "transport \<Rightarrow> state \<Rightarrow> fault + state" where
  "deliver tr st =
     (case map_of (tiles st) (toXy tr) of
        None \<Rightarrow> Inl TypeError
      | Some ti \<Rightarrow>
          (case building ti of
             None \<Rightarrow> Inr st
           | Some b \<Rightarrow>
               Inr (setBuilding (toXy tr)
                      (b\<lparr>resources := safeAdd (resources b) (resource tr) (amount tr)\<rparr>) st)))"

text \<open>
  The \<^verbatim>\<open>filter\<close> callback: the advanced record, whether the queue keeps it, and the
  new state.
\<close>

definition transportStep ::
  "env \<Rightarrow> position option \<Rightarrow> transport \<Rightarrow> state \<Rightarrow> fault + (bool \<times> transport \<times> state)" where
  "transportStep ev mah tr st =
     (case tickTransportation ev mah tr st of
        (tr', st1) \<Rightarrow>
          if ticksSpent tr' \<ge> ticksRequired tr'
          then (case deliver tr' st1 of Inl e \<Rightarrow> Inl e | Inr st2 \<Rightarrow> Inr (False, tr', st2))
          else Inr (True, tr', st1))"

fun filterQueue ::
  "env \<Rightarrow> position option \<Rightarrow> transport list \<Rightarrow> state \<Rightarrow> fault + (transport list \<times> state)" where
  "filterQueue ev mah [] st = Inr ([], st)"
| "filterQueue ev mah (tr # q) st =
     (case transportStep ev mah tr st of
        Inl e \<Rightarrow> Inl e
      | Inr (keep, tr', st1) \<Rightarrow>
          (case filterQueue ev mah q st1 of
             Inl e \<Rightarrow> Inl e
           | Inr (q', st2) \<Rightarrow> Inr (if keep then tr' # q' else q', st2)))"

text \<open>
  \<^verbatim>\<open>forEach(gs.transportation, ...)\<close>: every queue is replaced by its filtered copy.
  The keys of an object are distinct, so the queue read at a key is the one the tick
  started with.
\<close>

fun tickQueues ::
  "env \<Rightarrow> position option \<Rightarrow> (xy \<times> transport list) list \<Rightarrow> state \<Rightarrow> fault + state" where
  "tickQueues ev mah [] st = Inr st"
| "tickQueues ev mah ((k, q) # rest) st =
     (case filterQueue ev mah q st of
        Inl e \<Rightarrow> Inl e
      | Inr (q', st1) \<Rightarrow>
          tickQueues ev mah rest (st1\<lparr>transportation := AList.update k q' (transportation st1)\<rparr>))"

definition tickTransportations :: "env \<Rightarrow> state \<Rightarrow> fault + state" where
  "tickTransportations ev st = tickQueues ev (mausoleum ev st) (transportation st) st"

subsection \<open>The transportation router\<close>

text \<open>What the state stores of a number.\<close>

fun stored :: "number \<Rightarrow> fault + real" where
  "stored (Finite a) = Inr a"
| "stored x = Inl NonFinite"

text \<open>
  Modelled from the spec: \<^verbatim>\<open>addTransportation\<close> of BuildingLogic creates the record of
  a committed shipment in the queue of its destination tile, with \<^verbatim>\<open>ticksRequired\<close>
  from the distance rules of the grid. A new record has spent no tick and carries its
  nominal fuel amount.
\<close>

definition addTransportation ::
  "env \<Rightarrow> resource \<Rightarrow> real \<Rightarrow> resource \<Rightarrow> real \<Rightarrow> xy \<Rightarrow> xy \<Rightarrow> state \<Rightarrow> state" where
  "addTransportation ev res amt fuelRes fuelAmt src dst st =
     st\<lparr>transportation := safePush (transportation st) dst
          \<lparr>resource = res, amount = amt, fuel = fuelRes, fuelAmount = fuelAmt,
           currentFuelAmount = fuelAmt, fromPosition = xyToPosition ev src,
           toPosition = xyToPosition ev dst, fromXy = src, toXy = dst, ticksSpent = 0,
           ticksRequired = ticksRequiredFor ev src dst, hasEnoughFuel = True\<rparr>\<rparr>"

text \<open>
  \<^verbatim>\<open>Tick.current.globalMultipliers.transportCapacity.reduce((prev, curr) => prev + curr.value, 0)\<close>.
\<close>

definition transportCapacityBonus :: "state \<Rightarrow> number" where
  "transportCapacityBonus st =
     foldl (\<lambda>prev curr. fadd prev (Finite (fst curr))) (Finite 0)
       (globalMultipliers (tickCurrent st) ''transportCapacity'')"

text \<open>
  Lines 605 to 623: the capacity of one unit of labor between a source and the target.
  The target tile is read only when the feature is on and the source is no warehouse.
\<close>

definition pairCapacity ::
  "env \<Rightarrow> real \<Rightarrow> gridpoint \<Rightarrow> building_data \<Rightarrow> xy \<Rightarrow> state \<Rightarrow> fault + number" where
  "pairCapacity ev workerCapacity p b targetXy st =
     (let base = fadd (Finite workerCapacity) (transportCapacityBonus st);
          adjacent = (if distance ev p (xyToPoint ev targetXy) \<le> 1 then PosInf else base)
      in if hasFeature ev WarehouseUpgrade st
         then if btype b = ''Warehouse'' then Inr adjacent
              else (case map_of (tiles st) targetXy of
                      None \<Rightarrow> Inl TypeError
                    | Some tt \<Rightarrow>
                        if map_option btype (building tt) = Some ''Warehouse''
                        then Inr adjacent else Inr base)
         else Inr base)"

text \<open>
  Committing a shipment: \<^verbatim>\<open>building.resources[res]! -= amt\<close> on the source, then
  \<^verbatim>\<open>addTransportation\<close>. Subtracting from a missing entry gives \<^verbatim>\<open>NaN\<close>. The
  difference, the amount and the fuel amount are stored in the state.
\<close>

definition commitTransport ::
  "env \<Rightarrow> building_data \<Rightarrow> resource \<Rightarrow> number \<Rightarrow> number \<Rightarrow> xy \<Rightarrow> xy \<Rightarrow> state \<Rightarrow> fault + state" where
  "commitTransport ev b res amt fuelAmt src dst st =
     (case map_of (resources b) res of
        None \<Rightarrow> Inl NonFinite
      | Some a \<Rightarrow>
          (case (fsub (Finite a) amt, amt, fuelAmt) of
             (Finite left, Finite shipped, Finite fuelUsed) \<Rightarrow>
               Inr (addTransportation ev res shipped ''Worker'' fuelUsed src dst
                      (setBuilding src (b\<lparr>resources := AList.update res left (resources b)\<rparr>) st))
           | _ \<Rightarrow> Inl NonFinite))"

text \<open>
  The loop of lines 589 to 654 over the sorted sources, with \<^verbatim>\<open>amountLeft\<close>.
  \<^verbatim>\<open>fuelAmount\<close> is \<^verbatim>\<open>Math.ceil(amount / transportCapacity)\<close>, infinite when the
  capacity is zero; \<^verbatim>\<open>amountAfterFuel\<close> is \<^verbatim>\<open>(amount * fuelLeft) / fuelAmount\<close>.
\<close>

fun transportLoop ::
  "env \<Rightarrow> resource \<Rightarrow> real \<Rightarrow> xy \<Rightarrow> gridpoint list \<Rightarrow> real \<Rightarrow> state \<Rightarrow> fault + state" where
  "transportLoop ev res workerCapacity targetXy [] amountLeft st = Inr st"
| "transportLoop ev res workerCapacity targetXy (p # ps) amountLeft st =
     (case map_of (tiles st) (pointToXy ev p) of
        None \<Rightarrow> Inl TypeError
      | Some ti \<Rightarrow>
          (case building ti of
             None \<Rightarrow> transportLoop ev res workerCapacity targetXy ps amountLeft st
           | Some b \<Rightarrow>
               if pointToXy ev p = targetXy
               then transportLoop ev res workerCapacity targetXy ps amountLeft st
               else if getAvailableResource ev (pointToXy ev p) res st \<le> 0
               then transportLoop ev res workerCapacity targetXy ps amountLeft st
               else
                 (case pairCapacity ev workerCapacity p b targetXy st of
                    Inl e \<Rightarrow> Inl e
                  | Inr transportCapacity \<Rightarrow>
                      if getAvailableResource ev (pointToXy ev p) res st \<ge> amountLeft
                      then
                       (let fuelAmt = fceil (fdiv (Finite amountLeft) transportCapacity);
                            fuelLeft = getAvailableWorkers st ''Worker''
                        in if fle fuelAmt (Finite fuelLeft)
                           then commitTransport ev b res (Finite amountLeft) fuelAmt
                                  (pointToXy ev p) targetXy st
                           else if fuelLeft > 0
                           then commitTransport ev b res
                                  (fdiv (fmul (Finite amountLeft) (Finite fuelLeft)) fuelAmt)
                                  (Finite fuelLeft) (pointToXy ev p) targetXy st
                           else Inr st)
                      else
                       (let amountToTransport = getAvailableResource ev (pointToXy ev p) res st;
                            fuelAmt = fceil (fdiv (Finite amountToTransport) transportCapacity);
                            fuelLeft = getAvailableWorkers st ''Worker''
                        in if fle fuelAmt (Finite fuelLeft)
                           then
                             (case stored (fsub (Finite amountLeft) (Finite amountToTransport)) of
                                Inl e \<Rightarrow> Inl e
                              | Inr amountLeft' \<Rightarrow>
                                  (case commitTransport ev b res (Finite amountToTransport) fuelAmt
                                          (pointToXy ev p) targetXy st of
                                     Inl e \<Rightarrow> Inl e
                                   | Inr st' \<Rightarrow>
                                       transportLoop ev res workerCapacity targetXy ps amountLeft' st'))
                           else if fuelLeft > 0
                           then commitTransport ev b res
                                  (fdiv (fmul (Finite amountToTransport) (Finite fuelLeft)) fuelAmt)
                                  (Finite fuelLeft) (pointToXy ev p) targetXy st
                           else transportLoop ev res workerCapacity targetXy ps amountLeft st))))"

text \<open>
  \<^verbatim>\<open>transportResource\<close>. The sort of line 580 is in place: the list stored in the
  current snapshot is left sorted by distance to this target.
\<close>

definition transportResource ::
  "env \<Rightarrow> resource \<Rightarrow> real \<Rightarrow> real \<Rightarrow> xy \<Rightarrow> state \<Rightarrow> fault + state" where
  "transportResource ev res amt workerCapacity targetXy st =
     (if getAvailableWorkers st ''Worker'' \<le> 0 then Inr st
      else
        (case map_of (resourcesByGrid (tickCurrent st)) res of
           None \<Rightarrow> Inr st
         | Some pts \<Rightarrow>
             let sources = sortBy (\<lambda>p1 p2. distance ev p1 (xyToPoint ev targetXy)
                                            - distance ev p2 (xyToPoint ev targetXy)) pts
             in transportLoop ev res workerCapacity targetXy sources amt
                  (st\<lparr>tickCurrent := (tickCurrent st)\<lparr>resourcesByGrid :=
                        AList.update res sources (resourcesByGrid (tickCurrent st))\<rparr>\<rparr>)))"

subsection \<open>Warehouse autopilot\<close>

text \<open>
  Modelled from the spec: \<^verbatim>\<open>clamp(value, min, max)\<close> of Helper.ts on numbers that
  may not be finite, as \<^verbatim>\<open>Math.min(Math.max(value, min), max)\<close>.
\<close>

definition fmax :: "number \<Rightarrow> number \<Rightarrow> number" where
  "fmax x y = (if x = NaN \<or> y = NaN then NaN else if fle x y then y else x)"

definition fmin :: "number \<Rightarrow> number \<Rightarrow> number" where
  "fmin x y = (if x = NaN \<or> y = NaN then NaN else if fle x y then x else y)"

definition fclamp :: "number \<Rightarrow> number \<Rightarrow> number \<Rightarrow> number" where
  "fclamp v lo hi = fmin (fmax v lo) hi"

text \<open>
  The inner loop of lines 540 to 561 over the candidate resources of one source
  building. The result says whether the function returned from inside the loop, and
  gives the remaining capacity, \<^verbatim>\<open>hasTransported\<close> and the state. The labor reserved,
  the amount shipped and what the source keeps are stored in the state.
\<close>

fun autopilotCandidates ::
  "env \<Rightarrow> xy \<Rightarrow> xy \<Rightarrow> number \<Rightarrow> resource list \<Rightarrow> number \<Rightarrow> bool \<Rightarrow> state
     \<Rightarrow> fault + (bool \<times> number \<times> bool \<times> state)" where
  "autopilotCandidates ev src dst tc [] cap transported st = Inr (False, cap, transported, st)"
| "autopilotCandidates ev src dst tc (c # cs) cap transported st =
     (case map_of (getXyBuildings st) src of
        None \<Rightarrow> Inl TypeError
      | Some b \<Rightarrow>
          (case map_of (resources b) c of
             None \<Rightarrow> Inl NonFinite
           | Some have \<Rightarrow>
               let upgraded = (if distance ev (xyToPoint ev src) (xyToPoint ev dst) \<le> 1 then PosInf
                               else fceil (fdiv cap tc))
               in if fle cap (Finite have)
                  then
                    (case (fceil (fdiv cap upgraded), cap, fsub (Finite have) cap) of
                       (Finite workers, Finite shipped, Finite left) \<Rightarrow>
                         Inr (True, cap, True,
                              addTransportation ev c shipped ''Worker'' workers src dst
                                (setBuilding src
                                   (b\<lparr>resources := AList.update c left (resources b)\<rparr>)
                                   (useWorkers ''Worker'' workers (Some dst) st)))
                     | _ \<Rightarrow> Inl NonFinite)
                  else
                    (case fceil (fdiv (Finite have) upgraded) of
                       Finite workers \<Rightarrow>
                         autopilotCandidates ev src dst tc cs (fsub cap (Finite have)) True
                           (addTransportation ev c have ''Worker'' workers src dst
                              (setBuilding src
                                 (b\<lparr>resources := AList.update c (have - have) (resources b)\<rparr>)
                                 (useWorkers ''Worker'' workers (Some dst) st)))
                     | _ \<Rightarrow> Inl NonFinite)))"

text \<open>The outer loop of lines 529 to 562 over the buildings with full storage.\<close>

fun autopilotSources ::
  "env \<Rightarrow> xy \<Rightarrow> number \<Rightarrow> gridpoint list \<Rightarrow> number \<Rightarrow> bool \<Rightarrow> state \<Rightarrow> fault + (bool \<times> state)" where
  "autopilotSources ev dst tc [] cap transported st = Inr (transported, st)"
| "autopilotSources ev dst tc (p # ps) cap transported st =
     (case map_of (getXyBuildings st) (pointToXy ev p) of
        None \<Rightarrow> autopilotSources ev dst tc ps cap transported st
      | Some b \<Rightarrow>
          if pointToXy ev p = dst then autopilotSources ev dst tc ps cap transported st
          else
            (case autopilotCandidates ev (pointToXy ev p) dst tc
                    (sortBy (\<lambda>r1 r2. lookup0 (resources b) r2 - lookup0 (resources b) r1)
                       (filter (buildingOutput ev (btype b)) (map fst (resources b))))
                    cap transported st of
               Inl e \<Rightarrow> Inl e
             | Inr (returned, cap', transported', st') \<Rightarrow>
                 if returned then Inr (True, st')
                 else autopilotSources ev dst tc ps cap' transported' st'))"

text \<open>
  \<^verbatim>\<open>tickWarehouseAutopilot\<close>: the returned \<^verbatim>\<open>hasTransported\<close> and the state. The
  list of \<^verbatim>\<open>getStorageFullBuildings\<close> is sorted by distance to the warehouse.
\<close>

definition tickWarehouseAutopilot ::
  "env \<Rightarrow> building_data \<Rightarrow> xy \<Rightarrow> state \<Rightarrow> fault + (bool \<times> state)" where
  "tickWarehouseAutopilot ev warehouse k st =
     (let tc = fadd (Finite (totalMultiplierFor ev k ''worker'' 1 st)) (transportCapacityBonus st);
          idle = Finite (getWarehouseIdleCapacity ev warehouse);
          workers = Finite (getAvailableWorkers st ''Worker'');
          cap1 = (if flt workers (fceil (fdiv idle tc)) then fmul workers tc else idle);
          cap2 = fclamp cap1 (Finite 0)
                   (fsub (Finite (fst (getStorageFor ev k st))) (Finite (snd (getStorageFor ev k st))))
      in if fle cap2 (Finite 0) then Inr (False, st)
         else autopilotSources ev k tc
                (sortBy (\<lambda>a b. distance ev a (xyToPoint ev k) - distance ev b (xyToPoint ev k))
                   (getStorageFullBuildings ev st))
                cap2 False st)"

subsection \<open>Construction and upgrade\<close>

definition isBuildingOrUpgrading :: "building_data \<Rightarrow> bool" where
  "isBuildingOrUpgrading b = (status b = Building \<or> status b = Upgrading)"

text \<open>
  The callback of the scan over the level cost (lines 265 to 287), on the pair of the
  local \<^verbatim>\<open>completed\<close> and the state. Its first result is the signal it returns to
  \<^verbatim>\<open>forEach\<close>: \<^verbatim>\<open>true\<close> after a transport was sent, \<^verbatim>\<open>false\<close> in the first two
  branches, and nothing, which \<^verbatim>\<open>forEach\<close> reads as \<^verbatim>\<open>false\<close>, after
  \<^verbatim>\<open>NotEnoughWorkers\<close> was recorded.
\<close>

definition costStep ::
  "env \<Rightarrow> xy \<Rightarrow> building_data \<Rightarrow> resource \<Rightarrow> real \<Rightarrow> bool \<times> state
     \<Rightarrow> fault + (bool \<times> (bool \<times> state))" where
  "costStep ev k b res amt cs =
     (case cs of
        (completed, st) \<Rightarrow>
          if lookup0 (resources b) res \<ge> amt then Inr (False, completed, st)
          else if lookup0 (resources b) res + getAmountInTransit ev k res st \<ge> amt
          then Inr (False, False, st)
          else if getAvailableWorkers st ''Worker'' \<ge> 1
          then
            (case transportResource ev res (getBuilderCapacity ev b k st)
                    (getBuilderCapacity ev b k st) k
                    (useWorkers ''Worker'' 1 (Some k) (deleteReason k st)) of
               Inl e \<Rightarrow> Inl e
             | Inr st' \<Rightarrow> Inr (True, False, st'))
          else Inr (False, False, setReason k NotEnoughWorkers st))"

definition payCost :: "ledger \<Rightarrow> ledger \<Rightarrow> ledger" where
  "payCost cost l = foldl (\<lambda>acc (res, amt). safeAdd acc res (- amt)) l cost"

text \<open>
  Lines 288 to 303, when the scan left \<^verbatim>\<open>completed\<close> true.
  \<^verbatim>\<open>Object.assign(building, defaults)\<close> overwrites the fields the defaults of the
  building's type hold: a function on the building.
\<close>

definition completeLevel :: "env \<Rightarrow> xy \<Rightarrow> building_data \<Rightarrow> ledger \<Rightarrow> state \<Rightarrow> state" where
  "completeLevel ev k b cost st =
     (let b1 = b\<lparr>level := level b + 1\<rparr>
      in if status b1 = Building
         then
           let b2 = b1\<lparr>status := Completed\<rparr>;
               b3 = (case buildingDefaults ev (btype b2) of None \<Rightarrow> b2 | Some d \<Rightarrow> d b2)
           in setBuilding k (b3\<lparr>resources := payCost cost (resources b3)\<rparr>)
                (notify (BuildingComplete k) (setBuilding k b3 st))
         else if status b1 = Upgrading \<and> level b1 \<ge> desiredLevel b1
         then setBuilding k (b1\<lparr>status := Completed, resources := payCost cost (resources b1)\<rparr>) st
         else setBuilding k (b1\<lparr>resources := payCost cost (resources b1)\<rparr>) st)"

definition tickConstruction :: "env \<Rightarrow> xy \<Rightarrow> building_data \<Rightarrow> state \<Rightarrow> fault + state" where
  "tickConstruction ev k b st =
     (case forEach (getBuildingCost ev b) (costStep ev k b) (True, st) of
        Inl e \<Rightarrow> Inl e
      | Inr (completed, st1) \<Rightarrow>
          if completed then Inr (completeLevel ev k b (getBuildingCost ev b) st1) else Inr st1)"

subsection \<open>A completed building\<close>

text \<open>Lines 307 to 322: what the tile registers in the next snapshot.\<close>

definition registerTile :: "env \<Rightarrow> xy \<Rightarrow> building_data \<Rightarrow> state \<Rightarrow> state" where
  "registerTile ev k b st =
     (let n0 = tickNext st;
          n1 = (if ''Banking'' \<in> set (unlockedTech st) \<and> level b \<ge> 5
                then n0\<lparr>tileMultipliers := safePush (tileMultipliers n0) k
                        \<lparr>mStorage = Some 1, mInput = None, mOutput = None, mWorker = None,
                         mSource = labelResearch ev (labelBanking ev)\<rparr>\<rparr>
                else n0);
          n2 = (if btype b = ''Caravansary''
                then n1\<lparr>playerTradeBuildings := addKey k (playerTradeBuildings n1)\<rparr>
                else n1);
          n3 = (if isSpecialBuilding ev (btype b)
                then n2\<lparr>specialBuildings := AList.update (btype b) k (specialBuildings n2)\<rparr>
                else n2)
      in st\<lparr>tickNext := n3\<lparr>totalValue := totalValue n3 + getBuildingValue ev b\<rparr>\<rparr>)"

text \<open>Lines 329 to 336: the value and the location index of the resources held.\<close>

definition indexResource :: "env \<Rightarrow> xy \<Rightarrow> tick_data \<Rightarrow> resource \<times> real \<Rightarrow> tick_data" where
  "indexResource ev k n ra =
     (case ra of
        (res, amt) \<Rightarrow>
          if amt \<le> 0 then n
          else n\<lparr>totalValue := totalValue n
                   + (if canPrice ev res
                      then (case resourcePrice ev res of None \<Rightarrow> 0 | Some pr \<Rightarrow> pr) * amt
                      else 0),
                 resourcesByXy := safePush (resourcesByXy n) res k,
                 resourcesByGrid := safePush (resourcesByGrid n) res (xyToPoint ev k)\<rparr>)"

definition indexResources :: "env \<Rightarrow> xy \<Rightarrow> building_data \<Rightarrow> state \<Rightarrow> state" where
  "indexResources ev k b st = st\<lparr>tickNext := foldl (indexResource ev k) (tickNext st) (resources b)\<rparr>"

text \<open>Lines 338 to 347: a deposit the building's type requires and the tile lacks.\<close>

definition missingDeposit :: "env \<Rightarrow> tile \<Rightarrow> building_data \<Rightarrow> bool" where
  "missingDeposit ev ti b =
     (case buildingDeposit ev (btype b) of
        None \<Rightarrow> False
      | Some required \<Rightarrow> \<exists>r \<in> set required. r \<notin> set (deposit ti))"

text \<open>
  The callback of the input transport (lines 364 to 385), on \<^verbatim>\<open>hasTransported\<close> and
  the state. \<open>storageUsed\<close> and \<open>storageTotal\<close> are \<^verbatim>\<open>used\<close> and \<^verbatim>\<open>total\<close>, the storage
  figures read before the loop.
\<close>

definition inputStep ::
  "env \<Rightarrow> xy \<Rightarrow> building_data \<Rightarrow> real \<Rightarrow> real \<Rightarrow> real \<Rightarrow> resource \<Rightarrow> real \<Rightarrow> bool \<times> state
     \<Rightarrow> fault + (bool \<times> (bool \<times> state))" where
  "inputStep ev k b workerCapacity storageTotal storageUsed res v hs =
     (case hs of
        (transported, st) \<Rightarrow>
          if v * stockpileCapacity b \<le> 0 then Inr (False, transported, st)
          else if storageUsed + getStorageRequired ev [(res, v * stockpileCapacity b)] > storageTotal
          then Inr (False, transported, st)
          else if lookup0 (resources b) res + getAmountInTransit ev k res st
                  > (case resourceImports b of
                       None \<Rightarrow> getStockpileMax ev b * (v * stockpileCapacity b)
                     | Some caps \<Rightarrow> lookup0 caps res)
          then Inr (False, transported, st)
          else
            (case transportResource ev res (v * stockpileCapacity b) workerCapacity k st of
               Inl e \<Rightarrow> Inl e
             | Inr st' \<Rightarrow> Inr (False, True, st')))"

text \<open>Lines 387 to 392.\<close>

definition autopilotPhase ::
  "env \<Rightarrow> xy \<Rightarrow> building_data \<Rightarrow> bool \<times> state \<Rightarrow> fault + (bool \<times> state)" where
  "autopilotPhase ev k b hs =
     (case hs of
        (transported, st) \<Rightarrow>
          (case warehouseOptions b of
             None \<Rightarrow> Inr (transported, st)
           | Some opts \<Rightarrow>
               if hasFeature ev WarehouseUpgrade st \<and> hasFlag ev opts (flagAutopilot ev)
               then tickWarehouseAutopilot ev b k st
               else Inr (transported, st)))"

text \<open>
  The callback of the market (lines 408 to 423), on \<^verbatim>\<open>totalBought\<close> and the state.
  The building is read from the state: earlier trades of the same tick have changed
  its ledger. A sell resource without a buy partner, or a buy partner whose price is
  zero, leaves the finite numbers.
\<close>

definition marketStep ::
  "env \<Rightarrow> xy \<Rightarrow> real \<Rightarrow> real \<Rightarrow> resource \<Rightarrow> unit \<Rightarrow> real \<times> state
     \<Rightarrow> fault + (bool \<times> (real \<times> state))" where
  "marketStep ev k storageTotal storageUsed res u bs =
     (case bs of
        (totalBought, st) \<Rightarrow>
          (case map_of (getXyBuildings st) k of
             None \<Rightarrow> Inl TypeError
           | Some b \<Rightarrow>
               (case availableResources b of
                  None \<Rightarrow> Inl TypeError
                | Some pairing \<Rightarrow>
                    (case map_of pairing res of
                       Some (Some buyResource) \<Rightarrow>
                         if getMarketPrice ev buyResource k st = 0 then Inl NonFinite
                         else
                           let amt = clamp (capacity b * level b
                                              * totalMultiplierFor ev k ''output'' 1 st)
                                       0 (lookup0 (resources b) res);
                               buyAmount = amt * getMarketPrice ev res k st
                                             / getMarketPrice ev buyResource k st
                           in if storageUsed - amt + buyAmount > storageTotal
                              then Inr (False, totalBought, setReason k StorageFull st)
                              else Inr (False, totalBought + buyAmount,
                                        setBuilding k
                                          (b\<lparr>resources := safeAdd (safeAdd (resources b) res (- amt))
                                                               buyResource buyAmount\<rparr>) st)
                     | _ \<Rightarrow> Inl NonFinite))))"

definition tickMarket ::
  "env \<Rightarrow> xy \<Rightarrow> building_data \<Rightarrow> bool \<Rightarrow> real \<Rightarrow> real \<Rightarrow> state \<Rightarrow> fault + state" where
  "tickMarket ev k b offline storageTotal storageUsed st =
     (case forEach (map (\<lambda>r. (r, ())) (sellResources b)) (marketStep ev k storageTotal storageUsed) (0, st) of
        Inl e \<Rightarrow> Inl e
      | Inr (totalBought, st1) \<Rightarrow>
          if totalBought > 0 then Inr (notify (BuildingProductionComplete k offline) st1)
          else Inr st1)"

text \<open>
  Modelled from the spec: \<^verbatim>\<open>addResources\<close> of BuildingLogic credits every amount of
  its second argument to the ledger.
\<close>

definition addResources :: "ledger \<Rightarrow> ledger \<Rightarrow> ledger" where
  "addResources l extra = foldl (\<lambda>acc (res, amt). safeAdd acc res amt) l extra"

text \<open>
  \<^verbatim>\<open>filterTransportable(io)\<close> keeps the transportable resources;
  \<^verbatim>\<open>filterResource(output, { canStore: false })\<close>, which the module calls
  \<^verbatim>\<open>nonTransportables\<close>, keeps the resources whose definition has \<^verbatim>\<open>canStore\<close> false.
\<close>

definition filterTransportable :: "env \<Rightarrow> ledger \<Rightarrow> ledger" where
  "filterTransportable ev io = filter (\<lambda>ra. isTransportable ev (fst ra)) io"

definition nonTransportables :: "env \<Rightarrow> ledger \<Rightarrow> ledger" where
  "nonTransportables ev io = filter (\<lambda>ra. \<not> canStore ev (fst ra)) io"

text \<open>
  A credit to the ledger of the building on a tile (\<^verbatim>\<open>safeAdd(building.resources, ...)\<close>).
  \<^verbatim>\<open>Singleton().buildings.Headquarter\<close> is the tile of the headquarter, one of the tiles
  of the game state; \<open>headquarterXy\<close> is its key.
\<close>

definition creditBuilding :: "xy \<Rightarrow> resource \<Rightarrow> real \<Rightarrow> state \<Rightarrow> fault + state" where
  "creditBuilding k res v st =
     (case map_of (tiles st) k of
        None \<Rightarrow> Inl TypeError
      | Some ti \<Rightarrow>
          (case building ti of
             None \<Rightarrow> Inl TypeError
           | Some b \<Rightarrow> Inr (setBuilding k (b\<lparr>resources := safeAdd (resources b) res v\<rparr>) st)))"

text \<open>The callback of lines 489 to 500: one produced resource.\<close>

definition produceOutput ::
  "env \<Rightarrow> xy \<Rightarrow> resource \<Rightarrow> real \<Rightarrow> state \<Rightarrow> fault + (bool \<times> state)" where
  "produceOutput ev k res v st =
     (if isTransportable ev res
      then (case creditBuilding (if res = ''Science'' then headquarterXy ev else k) res v st of
              Inl e \<Rightarrow> Inl e
            | Inr st' \<Rightarrow> Inr (False, st'))
      else Inr (False, st\<lparr>tickNext := (tickNext st)\<lparr>workersAvailable :=
                          safeAdd (workersAvailable (tickNext st)) res v\<rparr>\<rparr>))"

text \<open>Lines 469 to 485: electrification, on the building and the state.\<close>

definition electrify :: "env \<Rightarrow> xy \<Rightarrow> building_data \<Rightarrow> state \<Rightarrow> building_data \<times> state" where
  "electrify ev k b st =
     (if hasFeature ev Electricity st \<and> canBeElectrified ev (btype b) \<and> electrification b > 0
      then
        let b1 = b\<lparr>electrification := clamp (electrification b) 0 (level b)\<rparr>;
            requiredPower = getPowerRequired ev (electrification b1)
        in if getAvailableWorkers st ''Power'' \<ge> requiredPower
           then
             let st1 = useWorkers ''Power'' requiredPower (Some k) st;
                 n = tickNext st1
             in (b1, st1\<lparr>tickNext := n\<lparr>tileMultipliers := safePush (tileMultipliers n) k
                            \<lparr>mStorage = None, mInput = Some (electrification b1),
                             mOutput = Some (electrification b1), mWorker = None,
                             mSource = labelElectrification ev\<rparr>,
                          electrified := AList.update k (electrification b1) (electrified n)\<rparr>\<rparr>)
           else (b1, st)
      else (b, st))"

text \<open>Lines 469 to 501: production once workers, inputs and storage suffice.\<close>

definition produce ::
  "env \<Rightarrow> xy \<Rightarrow> building_data \<Rightarrow> bool \<Rightarrow> real \<Rightarrow> ledger \<Rightarrow> ledger \<Rightarrow> state \<Rightarrow> fault + state" where
  "produce ev k b offline workerOutput inp outp st =
     (case electrify ev k b st of
        (b1, st1) \<Rightarrow>
          (case forEach outp (produceOutput ev k)
                  (setBuilding k (b1\<lparr>resources := deductResources ev (resources b1) inp\<rparr>)
                     (useWorkers ''Worker'' workerOutput (Some k) st1)) of
             Inl e \<Rightarrow> Inl e
           | Inr st2 \<Rightarrow> Inr (notify (BuildingProductionComplete k offline) st2)))"

text \<open>
  Lines 435 to 467, then \<open>produce\<close>: the gates of production, in the order the module
  tests them. \<open>workerOutput\<close>, \<open>storageTotal\<close> and \<open>storageUsed\<close> were read before the input
  transport; \<open>inp\<close> is the transportable input, \<open>outp\<close> the output.
\<close>

definition tickProduction ::
  "env \<Rightarrow> xy \<Rightarrow> building_data \<Rightarrow> bool \<Rightarrow> real \<Rightarrow> ledger \<Rightarrow> ledger \<Rightarrow> real \<Rightarrow> real \<Rightarrow> state
     \<Rightarrow> fault + state" where
  "tickProduction ev k b offline workerOutput inp outp storageTotal storageUsed st =
     (let hasEnoughStorage = (outp = [] \<or> storageUsed + getStorageRequired ev outp \<le> storageTotal);
          hasEnoughWorker = (getAvailableWorkers st ''Worker'' \<ge> workerOutput);
          hasEnoughInput = hasEnoughResources ev (resources b) inp
      in if \<not> hasEnoughWorker then Inr (setReason k NotEnoughWorkers st)
         else if \<not> hasEnoughInput then Inr (setReason k NotEnoughResources st)
         else if \<not> hasEnoughStorage
         then
           if length (nonTransportables ev outp) > 0
           then
             let st1 = useWorkers ''Worker''
                         (getWorkersFor ev k
                            (Include (filter (\<lambda>r. r \<noteq> ''Worker'') (map fst (nonTransportables ev outp))))
                            st)
                         (Some k) st;
                 st2 = setBuilding k (b\<lparr>resources := deductResources ev (resources b) inp\<rparr>) st1;
                 st3 = st2\<lparr>tickNext := (tickNext st2)\<lparr>workersAvailable :=
                          addResources (workersAvailable (tickNext st2)) (nonTransportables ev outp)\<rparr>\<rparr>
             in if filterTransportable ev outp \<noteq> [] then Inr (setReason k StorageFull st3)
                else Inr st3
           else Inr (setReason k StorageFull st)
         else produce ev k b offline workerOutput inp outp st)"

text \<open>Lines 307 to 502: a tile whose building is neither paused nor under construction.\<close>

definition tickCompleted ::
  "env \<Rightarrow> xy \<Rightarrow> tile \<Rightarrow> building_data \<Rightarrow> bool \<Rightarrow> state \<Rightarrow> fault + state" where
  "tickCompleted ev k ti b offline st =
     (let st1 = registerTile ev k b st;
          inp = filterTransportable ev (getBuildingIO ev k Input st1);
          outp = getBuildingIO ev k Output st1;
          st2 = indexResources ev k b st1
      in if missingDeposit ev ti b then Inr (setReason k NotOnDeposit st2)
         else if capacity b \<le> 0 then Inr (setReason k TurnedOff st2)
         else
           let workerOutput = getWorkersFor ev k (Exclude [''Worker'']) st2;
               workerCapacity = totalMultiplierFor ev k ''worker'' 1 st2;
               storageTotal = fst (getStorageFor ev k st2);
               storageUsed = snd (getStorageFor ev k st2)
           in case forEach inp (inputStep ev k b workerCapacity storageTotal storageUsed) (False, st2) of
                Inl e \<Rightarrow> Inl e
              | Inr hs \<Rightarrow>
                  (case autopilotPhase ev k b hs of
                     Inl e \<Rightarrow> Inl e
                   | Inr (transported, st3) \<Rightarrow>
                       let st4 = (if resourceImports b \<noteq> None \<and> \<not> transported
                                  then setReason k NoActiveTransports st3 else st3)
                       in if btype b = ''Market'' then tickMarket ev k b offline storageTotal storageUsed st4
                          else if resourceImports b \<noteq> None then Inr st4
                          else tickProduction ev k b offline workerOutput inp outp storageTotal storageUsed st4))"

text \<open>\<^verbatim>\<open>tickTile\<close>. A tile key without a tile, or a tile without a building, throws.\<close>

definition tickTile :: "env \<Rightarrow> xy \<Rightarrow> bool \<Rightarrow> state \<Rightarrow> fault + state" where
  "tickTile ev k offline st =
     (case map_of (tiles st) k of
        None \<Rightarrow> Inl TypeError
      | Some ti \<Rightarrow>
          (case building ti of
             None \<Rightarrow> Inl TypeError
           | Some b0 \<Rightarrow>
               if status b0 = Paused then Inr st
               else if isNaturalWonder ev (btype b0) \<and> \<not> explored ti then Inr st
               else
                 let b = (if desiredLevel b0 > level b0 then b0\<lparr>status := Upgrading\<rparr>
                          else b0\<lparr>desiredLevel := level b0\<rparr>)
                 in if status b = Building \<or> status b = Upgrading
                    then tickConstruction ev k b (setBuilding k b st)
                    else tickCompleted ev k ti b offline (setBuilding k b st)))"

subsection \<open>The order of the tiles\<close>

text \<open>The comparator of lines 227 to 241, on two tiles with their buildings.\<close>

definition compareTiles :: "env \<Rightarrow> xy \<times> building_data \<Rightarrow> xy \<times> building_data \<Rightarrow> real" where
  "compareTiles ev a b =
     (if isBuildingOrUpgrading (snd a) \<and> \<not> isBuildingOrUpgrading (snd b) then - 1
      else if isBuildingOrUpgrading (snd b) \<and> \<not> isBuildingOrUpgrading (snd a) then 1
      else if priority (snd b) - priority (snd a) \<noteq> 0
      then priority (snd b) - priority (snd a)
      else (case buildingTier ev (btype (snd a)) of None \<Rightarrow> 0 | Some t \<Rightarrow> t)
           - (case buildingTier ev (btype (snd b)) of None \<Rightarrow> 0 | Some t \<Rightarrow> t))"

text \<open>
  The sorted keys of line 227. The module sorts the keys of \<^verbatim>\<open>getXyBuildings(gs)\<close> and
  reads each key's building from \<^verbatim>\<open>gs.tiles\<close>, which is the building
  \<^verbatim>\<open>getXyBuildings\<close> lists for it.
\<close>

definition sortedTiles :: "env \<Rightarrow> state \<Rightarrow> xy list" where
  "sortedTiles ev st = map fst (sortBy (compareTiles ev) (getXyBuildings st))"

fun tickTileList :: "env \<Rightarrow> bool \<Rightarrow> xy list \<Rightarrow> state \<Rightarrow> fault + state" where
  "tickTileList ev offline [] st = Inr st"
| "tickTileList ev offline (k # ks) st =
     (case tickTile ev k offline st of
        Inl e \<Rightarrow> Inl e
      | Inr st' \<Rightarrow> tickTileList ev offline ks st')"

definition tickTiles :: "env \<Rightarrow> bool \<Rightarrow> state \<Rightarrow> fault + state" where
  "tickTiles ev offline st = tickTileList ev offline (sortedTiles ev st) st"

subsection \<open>The market pricer\<close>

text \<open>
  Modelled from the spec: \<^verbatim>\<open>HOUR\<close> of Helper.ts, the length of the hour bucket of the
  millisecond clock \<^verbatim>\<open>Date.now()\<close>.
\<close>

definition HOUR :: int where
  "HOUR = 1000 * 60 * 60"

definition getPriceId :: "int \<Rightarrow> int" where
  "getPriceId now = now div HOUR"

text \<open>\<^verbatim>\<open>buy[idx % buy.length]\<close>: \<^verbatim>\<open>undefined\<close> for the empty array.\<close>

definition nthMod :: "'a list \<Rightarrow> nat \<Rightarrow> 'a option" where
  "nthMod xs i = (if xs = [] then None else Some (xs ! (i mod length xs)))"

text \<open>
  The loop of lines 696 to 698, which returns the index it stops at. It stops only
  at an index whose element differs from \<open>res\<close>; \<open>None\<close> is the loop that never
  exits.
\<close>

partial_function (option) skipSame :: "resource list \<Rightarrow> resource \<Rightarrow> nat \<Rightarrow> nat option" where
  "skipSame buy res idx =
     (if nthMod buy idx = Some res then skipSame buy res (idx + 1) else Some idx)"

text \<open>The loop of lines 695 to 700 over \<^verbatim>\<open>sell\<close>; \<open>idx\<close> is kept between resources.\<close>

fun assignPairs ::
  "resource list \<Rightarrow> resource list \<Rightarrow> nat \<Rightarrow> (resource \<times> resource option) list
     \<Rightarrow> (resource \<times> resource option) list option" where
  "assignPairs buy [] idx m = Some m"
| "assignPairs buy (res # sell) idx m =
     (case skipSame buy res idx of
        None \<Rightarrow> None
      | Some idx' \<Rightarrow> assignPairs buy sell idx' (AList.update res (nthMod buy idx') m))"

text \<open>
  The callback of lines 685 to 706 on one building. The seed \<^verbatim>\<open>priceId + xy\<close> is the
  text of the number followed by the tile key; the shuffle receives the two parts.
\<close>

definition priceMarket ::
  "env \<Rightarrow> int \<Rightarrow> bool \<Rightarrow> resource list \<Rightarrow> xy \<Rightarrow> building_data \<Rightarrow> fault + building_data" where
  "priceMarket ev priceId forceUpdatePrice keys k b =
     (if btype b = ''Market''
      then
        let m0 = (case availableResources b of None \<Rightarrow> [] | Some m \<Rightarrow> m)
        in case (if length m0 \<le> 0 \<or> forceUpdatePrice
                 then assignPairs (shuffle ev keys (priceId, k)) (shuffle ev keys (priceId, k)) 0 m0
                 else Some m0) of
             None \<Rightarrow> Inl Diverges
           | Some m1 \<Rightarrow>
               if forceUpdatePrice \<and> hasFlag ev (marketOptions b) (flagClearAfterUpdate ev)
               then Inr (b\<lparr>availableResources := Some m1, sellResources := []\<rparr>)
               else Inr (b\<lparr>availableResources := Some m1\<rparr>)
      else Inr b)"

fun priceMarkets ::
  "env \<Rightarrow> int \<Rightarrow> bool \<Rightarrow> resource list \<Rightarrow> (xy \<times> building_data) list \<Rightarrow> state \<Rightarrow> fault + state" where
  "priceMarkets ev priceId forceUpdatePrice keys [] st = Inr st"
| "priceMarkets ev priceId forceUpdatePrice keys ((k, b) # rest) st =
     (case priceMarket ev priceId forceUpdatePrice keys k b of
        Inl e \<Rightarrow> Inl e
      | Inr b' \<Rightarrow> priceMarkets ev priceId forceUpdatePrice keys rest (setBuilding k b' st))"

text \<open>\<^verbatim>\<open>tickPrice\<close>; \<open>now\<close> is what \<^verbatim>\<open>Date.now()\<close> returns.\<close>

definition tickPrice :: "env \<Rightarrow> int \<Rightarrow> state \<Rightarrow> fault + state" where
  "tickPrice ev now st =
     (let priceId = getPriceId now;
          forceUpdatePrice = (lastPriceUpdated st \<noteq> priceId);
          st1 = (if forceUpdatePrice then st\<lparr>lastPriceUpdated := priceId\<rparr> else st);
          keys = filter (\<lambda>res. canPrice ev res \<and> canStore ev res) (unlockedResources ev st1)
      in priceMarkets ev priceId forceUpdatePrice keys (getXyBuildings st1) st1)"

subsection \<open>The tick\<close>

definition addMultiplier :: "btype \<Rightarrow> multiplier \<Rightarrow> string \<Rightarrow> tick_data \<Rightarrow> tick_data" where
  "addMultiplier k m src n =
     n\<lparr>buildingMultipliers := safePush (buildingMultipliers n) k (m\<lparr>mSource := src\<rparr>)\<rparr>"

text \<open>\<^verbatim>\<open>tickTech\<close> on the next snapshot, for a technology of the configuration.\<close>

definition tickTech :: "env \<Rightarrow> string \<Rightarrow> tick_data \<Rightarrow> tick_data" where
  "tickTech ev tech n =
     (let n1 = n\<lparr>unlockedBuildings := foldl (\<lambda>l b. addKey b l) (unlockedBuildings n)
                                          (techUnlockBuilding ev tech)\<rparr>;
          n2 = foldl (\<lambda>acc kv. addMultiplier (fst kv) (snd kv)
                                  (labelResearch ev (techName ev tech)) acc)
                 n1 (techBuildingMultiplier ev tech)
      in foldl (\<lambda>acc kv. acc\<lparr>globalMultipliers := (globalMultipliers acc)
                   (fst kv := globalMultipliers acc (fst kv)
                                @ [(snd kv, labelResearch ev (techName ev tech))])\<rparr>)
           n2 (techGlobalMultiplier ev tech))"

text \<open>
  Modelled from the spec: \<^verbatim>\<open>EmptyTickData()\<close> of TickLogic, the snapshot that is empty
  at the start of a tick's write phase.
\<close>

definition emptyTickData :: tick_data where
  "emptyTickData =
     \<lparr>workersAvailable = [], workersUsed = [], notProducingReasons = [], resourcesByGrid = [],
      resourcesByXy = [], specialBuildings = [], unlockedBuildings = [],
      buildingMultipliers = [], globalMultipliers = (\<lambda>k. []), tileMultipliers = [],
      playerTradeBuildings = [], electrified = [], totalValue = 0, happiness = 0\<rparr>"

text \<open>
  What a call reads from outside the game state: the clock, and the two facts
  \<^verbatim>\<open>shouldTick\<close> asks for.
\<close>

record ambient =
  dateNow :: int
  isSteam :: bool
  documentVisible :: bool

definition shouldTick :: "ambient \<Rightarrow> bool" where
  "shouldTick am = (isSteam am \<or> documentVisible am)"

definition tickEverySecond :: "env \<Rightarrow> ambient \<Rightarrow> bool \<Rightarrow> state \<Rightarrow> fault + state" where
  "tickEverySecond ev am offline st =
     (if \<not> offline \<and> \<not> shouldTick am then Inr st
      else
        let st1 = notify CurrentTickChanged
                    (st\<lparr>timeSinceLastTick := 0, tickCurrent := tickNext st,
                        tickNext := emptyTickData\<rparr>);
            st2 = st1\<lparr>tickNext := foldl (\<lambda>n tech. tickTech ev tech n) (tickNext st1)
                                      (unlockedTech st1)\<rparr>;
            st3 = foldl (\<lambda>s pl. tickGreatPerson ev (fst pl) (snd pl) False s) st2 (greatPeople st2);
            st4 = foldl (\<lambda>s pl. tickGreatPerson ev (fst pl) (snd pl) True s) st3
                    (optionsGreatPeople ev)
        in case tickPrice ev (dateNow am) st4 of
             Inl e \<Rightarrow> Inl e
           | Inr st5 \<Rightarrow>
               (case tickTransportations ev st5 of
                  Inl e \<Rightarrow> Inl e
                | Inr st6 \<Rightarrow>
                    (case tickTiles ev offline st6 of
                       Inl e \<Rightarrow> Inl e
                     | Inr st7 \<Rightarrow>
                         (case creditBuilding (headquarterXy ev) ''Science''
                                 (getScienceFromWorkers ev
                                    (st7\<lparr>tickNext := (tickNext st7)
                                            \<lparr>happiness := calculateHappiness ev st7\<rparr>\<rparr>))
                                 (st7\<lparr>tickNext := (tickNext st7)
                                         \<lparr>happiness := calculateHappiness ev st7\<rparr>\<rparr>) of
                            Inl e \<Rightarrow> Inl e
                          | Inr st8 \<Rightarrow>
                              let st9 = st8\<lparr>tick := tick st8 + 1\<rparr>
                              in if offline then Inr st9
                                 else if tick st9 mod 5 = 0
                                 then Inr (notify Heartbeat (notify SaveGame
                                             (notify GameStateUpdate st9)))
                                 else Inr (notify GameStateUpdate st9)))))"

text \<open>
  \<^verbatim>\<open>window.tickGameState\<close> (lines 711 to 716): \<open>n\<close> offline ticks; \<open>am i\<close> is what
  the \<open>i\<close>-th of them reads from outside.
\<close>

fun tickGameState :: "env \<Rightarrow> (nat \<Rightarrow> ambient) \<Rightarrow> nat \<Rightarrow> state \<Rightarrow> fault + state" where
  "tickGameState ev am 0 st = Inr st"
| "tickGameState ev am (Suc n) st =
     (case tickEverySecond ev (am 0) True st of
        Inl e \<Rightarrow> Inl e
      | Inr st' \<Rightarrow> tickGameState ev (\<lambda>i. am (Suc i)) n st')"

subsection \<open>The status and the level of a building\<close>

text \<open>
  What the status claims of the spec read of a building: its status, its level and its
  desired level; and the same of the building of a tile of the state, if there is one.
\<close>

definition shapeOf :: "building_data \<Rightarrow> status \<times> real \<times> real" where
  "shapeOf b = (status b, level b, desiredLevel b)"

definition shapeAt :: "state \<Rightarrow> xy \<Rightarrow> (status \<times> real \<times> real) option" where
  "shapeAt st k =
     (case map_of (tiles st) k of
        None \<Rightarrow> None
      | Some ti \<Rightarrow> map_option shapeOf (building ti))"

text \<open>
  The defaults \<^verbatim>\<open>Object.assign\<close> writes over a building that completes come from
  the game options. The assumption under which the level completion is analysed: they
  leave the status and the two levels as they are.
\<close>

definition defaultsKeepShape :: "env \<Rightarrow> bool" where
  "defaultsKeepShape ev = (\<forall>ty d b. buildingDefaults ev ty = Some d \<longrightarrow> shapeOf (d b) = shapeOf b)"

subsection \<open>The spec's words\<close>

text \<open>
  The order the spec describes for the tiles, in its own words: a tile under
  construction or upgrade goes before one that is not; otherwise the higher priority
  goes first; otherwise the lower tier of the configuration (a missing tier is 0).
\<close>

definition tier :: "env \<Rightarrow> building_data \<Rightarrow> real" where
  "tier ev b = (case buildingTier ev (btype b) of None \<Rightarrow> 0 | Some t \<Rightarrow> t)"

definition precedes :: "env \<Rightarrow> xy \<times> building_data \<Rightarrow> xy \<times> building_data \<Rightarrow> bool" where
  "precedes ev a b =
     ((isBuildingOrUpgrading (snd a) \<and> \<not> isBuildingOrUpgrading (snd b)) \<or>
      (isBuildingOrUpgrading (snd a) = isBuildingOrUpgrading (snd b) \<and>
       (priority (snd a) > priority (snd b) \<or>
        (priority (snd a) = priority (snd b) \<and> tier ev (snd a) \<le> tier ev (snd b)))))"

text \<open>
  The property of a buy and sell pairing the spec asks for: no resource with an entry
  has itself as its buy partner.
\<close>

definition noSelfTrade :: "(resource \<times> resource option) list \<Rightarrow> bool" where
  "noSelfTrade m = (\<forall>r \<in> fst ` set m. map_of m r \<noteq> Some (Some r))"

text \<open>
  The labor the partial fallback of lines 452 to 457 reserves: what
  \<^verbatim>\<open>getWorkersFor\<close> gives for the non-transportable outputs other than \<open>Worker\<close>.
\<close>

definition byproductWorkers :: "env \<Rightarrow> xy \<Rightarrow> ledger \<Rightarrow> state \<Rightarrow> real" where
  "byproductWorkers ev k outp st =
     getWorkersFor ev k
       (Include (filter (\<lambda>r. r \<noteq> ''Worker'') (map fst (nonTransportables ev outp)))) st"

section \<open>Example inputs\<close>

text \<open>
  A small configuration and a few states, for the concrete instances below: the
  resources \<open>Worker\<close> and \<open>Power\<close> are the pools, every other resource can be stored,
  priced and transported; grid points are the tile keys \<open>0,0\<close> to \<open>3,0\<close> on a line.
\<close>

definition exampleXyToPoint :: "xy \<Rightarrow> gridpoint" where
  "exampleXyToPoint k =
     (if k = ''1,0'' then (1, 0) else if k = ''2,0'' then (2, 0)
      else if k = ''3,0'' then (3, 0) else (0, 0))"

definition examplePointToXy :: "gridpoint \<Rightarrow> xy" where
  "examplePointToXy p =
     (if p = (1, 0) then ''1,0'' else if p = (2, 0) then ''2,0''
      else if p = (3, 0) then ''3,0'' else ''0,0'')"

definition exampleEnv :: env where
  "exampleEnv = \<lparr>
     isTransportable = (\<lambda>r. r \<noteq> ''Worker'' \<and> r \<noteq> ''Power''),
     canStore = (\<lambda>r. r \<noteq> ''Worker'' \<and> r \<noteq> ''Power''),
     canPrice = (\<lambda>r. r \<noteq> ''Worker'' \<and> r \<noteq> ''Power''),
     resourcePrice = (\<lambda>r. Some 1),
     buildingTier = (\<lambda>b. if b = ''Hut'' then Some 1 else if b = ''Farm'' then Some 2 else None),
     buildingDeposit = (\<lambda>b. None),
     buildingOutput = (\<lambda>b r. True),
     isNaturalWonder = (\<lambda>b. False),
     isSpecialBuilding = (\<lambda>b. False),
     canBeElectrified = (\<lambda>b. False),
     buildingDefaults = (\<lambda>b. None),
     getBuildingCost = (\<lambda>b. [(''Wood'', 10), (''Stone'', 10)]),
     getBuildingValue = (\<lambda>b. 0),
     getBuilderCapacity = (\<lambda>b k st. 1),
     getAmountInTransit = (\<lambda>k r st. 0),
     getAvailableResource = (\<lambda>k r st.
        case map_of (tiles st) k of
          None \<Rightarrow> 0
        | Some ti \<Rightarrow> (case building ti of None \<Rightarrow> 0 | Some b \<Rightarrow> lookup0 (resources b) r)),
     getBuildingIO = (\<lambda>k d st. case d of Input \<Rightarrow> [(''Wood'', 2)]
                                          | Output \<Rightarrow> [(''Plank'', 1), (''Power'', 3)]),
     getWorkersFor = (\<lambda>k f st. case f of Exclude rs \<Rightarrow> 2 | Include rs \<Rightarrow> 1),
     totalMultiplierFor = (\<lambda>k m b st. if m = ''worker'' then 5 else b),
     getStorageFor = (\<lambda>k st. (100, 0)),
     getStorageRequired = (\<lambda>l. sum_list (map snd (filter (\<lambda>ra. ra \<noteq> (''Power'', 3)) l))),
     getStockpileMax = (\<lambda>b. 5),
     getWarehouseIdleCapacity = (\<lambda>b. 5),
     getStorageFullBuildings = (\<lambda>st. [(2, 0)]),
     getMarketPrice = (\<lambda>r k st. 1),
     getPowerRequired = (\<lambda>e. e),
     hasEnoughResources = (\<lambda>a b. list_all (\<lambda>ra. lookup0 a (fst ra) \<ge> snd ra) b),
     deductResources = (\<lambda>a b. foldl (\<lambda>acc ra. safeAdd acc (fst ra) (- snd ra)) a b),
     hasFeature = (\<lambda>f st. True),
     hasFlag = (\<lambda>a b. a = b),
     flagAutopilot = 1,
     flagClearAfterUpdate = 1,
     unlockedResources = (\<lambda>st. [''Wood'', ''Stone'', ''Worker'']),
     shuffle = (\<lambda>xs seed. xs),
     distance = (\<lambda>p q. real_of_int (\<bar>fst p - fst q\<bar> + \<bar>snd p - snd q\<bar>)),
     xyToPoint = exampleXyToPoint,
     pointToXy = examplePointToXy,
     xyToPosition = (\<lambda>k. (real_of_int (fst (exampleXyToPoint k)), 0)),
     labelResearch = (\<lambda>s. s),
     labelBanking = ''Banking'',
     labelElectrification = ''Electrification'',
     techName = (\<lambda>s. s),
     techUnlockBuilding = (\<lambda>s. []),
     techBuildingMultiplier = (\<lambda>s. []),
     techGlobalMultiplier = (\<lambda>s. []),
     tickGreatPerson = (\<lambda>p l a st. st),
     optionsGreatPeople = [],
     calculateHappiness = (\<lambda>st. 0),
     getScienceFromWorkers = (\<lambda>st. 0),
     headquarterXy = ''0,0'',
     ticksRequiredFor = (\<lambda>a b. real_of_int \<bar>fst (exampleXyToPoint a) - fst (exampleXyToPoint b)\<bar>) \<rparr>"

definition exampleBuilding :: "btype \<Rightarrow> status \<Rightarrow> ledger \<Rightarrow> building_data" where
  "exampleBuilding ty s l =
     \<lparr>btype = ty, status = s, level = 1, desiredLevel = 1, capacity = 1, priority = 1,
      stockpileCapacity = 1, electrification = 0, resources = l, sellResources = [],
      availableResources = None, marketOptions = 0, warehouseOptions = None,
      resourceImports = None\<rparr>"

definition exampleTile :: "building_data option \<Rightarrow> tile" where
  "exampleTile b = \<lparr>building = b, explored = True, deposit = []\<rparr>"

text \<open>A state with the given tiles and \<open>w\<close> units of \<open>Worker\<close> in this tick's pool.\<close>

definition exampleState :: "(xy \<times> tile) list \<Rightarrow> real \<Rightarrow> state" where
  "exampleState ts w =
     \<lparr>tiles = ts, transportation = [], unlockedTech = [], greatPeople = [], tick = 0,
      lastPriceUpdated = 0,
      tickCurrent = emptyTickData\<lparr>workersAvailable := [(''Worker'', w)]\<rparr>,
      tickNext = emptyTickData, timeSinceLastTick = 0, notifications = []\<rparr>"

text \<open>A shipment of 5 \<open>Wood\<close> from \<open>0,0\<close> to \<open>1,0\<close>, with the given fuel kind and ticks spent.\<close>

definition exampleTransport :: "resource \<Rightarrow> real \<Rightarrow> transport" where
  "exampleTransport f spent =
     \<lparr>resource = ''Wood'', amount = 5, fuel = f, fuelAmount = 1, currentFuelAmount = 1,
      fromPosition = (0, 0), toPosition = (1, 0), fromXy = ''0,0'', toXy = ''1,0'',
      ticksSpent = spent, ticksRequired = 3, hasEnoughFuel = True\<rparr>"

text \<open>
  Five tiles: a farm (tier 2), a hut of priority 3, a tile without a building, a hut
  under upgrade, and a hut (tier 1) of priority 1.
\<close>

definition orderExample :: "(xy \<times> tile) list" where
  "orderExample =
     [(''0,0'', exampleTile (Some (exampleBuilding ''Farm'' Completed []))),
      (''1,0'', exampleTile (Some ((exampleBuilding ''Hut'' Completed [])\<lparr>priority := 3\<rparr>))),
      (''2,0'', exampleTile None),
      (''3,0'', exampleTile (Some (exampleBuilding ''Hut'' Upgrading []))),
      (''4,0'', exampleTile (Some (exampleBuilding ''Hut'' Completed [])))]"

text \<open>
  One tile with a hut of level 1, nothing in its ledger, in the given status and with
  the given desired level. The cost of a level is 10 \<open>Wood\<close> and 10 \<open>Stone\<close>.
\<close>

definition siteExample :: "status \<Rightarrow> real \<Rightarrow> (xy \<times> tile) list" where
  "siteExample s want =
     [(''0,0'', exampleTile (Some ((exampleBuilding ''Hut'' s [])\<lparr>desiredLevel := want\<rparr>)))]"


text \<open>
  A warehouse with autopilot at \<open>0,0\<close> and, two tiles away, a farm that holds 8
  \<open>Plank\<close>. In the example configuration the farm is the one building with full
  storage, an idle warehouse takes 5 units and a unit of labor carries 5.
\<close>

definition depotExample :: "(xy \<times> tile) list" where
  "depotExample =
     [(''0,0'', exampleTile (Some ((exampleBuilding ''Warehouse'' Completed [])
                                     \<lparr>warehouseOptions := Some 1\<rparr>))),
      (''2,0'', exampleTile (Some (exampleBuilding ''Farm'' Completed [(''Plank'', 8)])))]"

text \<open>What a call at the given time reads from outside: the clock, in a visible window.\<close>

definition clockAt :: "int \<Rightarrow> ambient" where
  "clockAt now = \<lparr>dateNow = now, isSteam = False, documentVisible = True\<rparr>"

text \<open>The headquarter alone, paused, at \<open>0,0\<close>.\<close>

definition capitalExample :: "(xy \<times> tile) list" where
  "capitalExample = [(''0,0'', exampleTile (Some (exampleBuilding ''Headquarter'' Paused [])))]"




text \<open>
  A workshop of priority 3 at \<open>0,0\<close> that holds 5 \<open>Wood\<close>, and a completed hut of
  priority 1 at \<open>1,0\<close> whose desired level 2 is above its level 1.
\<close>

definition upgradeExample :: "(xy \<times> tile) list" where
  "upgradeExample =
     [(''0,0'', exampleTile (Some ((exampleBuilding ''Workshop'' Completed [(''Wood'', 5)])
                                     \<lparr>priority := 3\<rparr>))),
      (''1,0'', exampleTile (Some ((exampleBuilding ''Hut'' Completed [])\<lparr>desiredLevel := 2\<rparr>)))]"

text \<open>
  The tile \<open>1,0\<close> without a building, and in its queue two shipments of coal bound
  for it: one on its last tick and one that has spent no tick.
\<close>

definition strandedExample :: state where
  "strandedExample =
     (exampleState [(''1,0'', exampleTile None)] 0)
       \<lparr>transportation := [(''1,0'', [exampleTransport ''Coal'' 2, exampleTransport ''Coal'' 0])]\<rparr>"




section \<open>Properties\<close>

subsection \<open>Numbers\<close>

text \<open>Rounding leaves the integers up to \<open>2^53\<close> as they are.\<close>

lemma roundEven_of_int: "roundEven (of_int m) = m"
  by (simp add: roundEven_def)

lemma binade_of_int:
  assumes "n \<noteq> 0"
  shows "0 \<le> binade (of_int n)" "2 ^ nat (binade (of_int n)) \<le> \<bar>n\<bar>"
proof -
  have pos: "0 < \<bar>n\<bar>" using assms by simp
  have one: "1 \<le> \<bar>real_of_int n\<bar>"
    using assms by (metis abs_ge_zero int_one_le_iff_zero_less of_int_abs of_int_1_le_iff pos)
  have b: "binade (of_int n) = bitlen \<bar>n\<bar> - 1"
    using one by (simp add: binade_def flip: of_int_abs)
  have "0 < bitlen \<bar>n\<bar>" using pos
    by (metis bitlen_nonneg bitlen_eq_zero_iff less_le not_le)
  then show "0 \<le> binade (of_int n)" using b by simp
  show "2 ^ nat (binade (of_int n)) \<le> \<bar>n\<bar>"
    using bitlen_bounds [OF pos] b by simp
qed

lemma round64_of_int:
  assumes "\<bar>n\<bar> \<le> 2 ^ 53"
  shows "round64 (of_int n) = of_int n"
proof (cases "n = 0")
  case True
  then show ?thesis by (simp add: round64_def)
next
  case False
  define e where "e = binade (of_int n)"
  have e0: "0 \<le> e" and lo: "2 ^ nat e \<le> \<bar>n\<bar>"
    using binade_of_int [OF False] by (simp_all add: e_def)
  have le: "(2::int) ^ nat e \<le> 2 ^ 53" using lo assms by linarith
  have e53: "nat e \<le> 53"
    by (rule power_le_imp_le_exp [of "2::int", OF _ le]) simp
  have m: "max e (- 1022) = e" using e0 by simp
  have r: "round64 (of_int n) =
      of_int (roundEven (real_of_int n / pow2 (e - 52))) * pow2 (e - 52)"
    using False m by (simp add: round64_def e_def)
  show ?thesis
  proof (cases "nat e \<le> 52")
    case True
    then have p: "pow2 (e - 52) = 1 / 2 ^ (52 - nat e)"
      using e0 by (auto simp: pow2_def nat_diff_distrib' dest: antisym)
    have "real_of_int n / pow2 (e - 52) = of_int (n * 2 ^ (52 - nat e))"
      by (simp add: p)
    then have rh: "roundEven (real_of_int n / pow2 (e - 52)) = n * 2 ^ (52 - nat e)"
      by (simp only: roundEven_of_int)
    show ?thesis unfolding r rh by (simp add: p)
  next
    case False
    then have e: "e = 53" using e53 e0 by linarith
    have p: "pow2 (e - 52) = 2" by (simp add: e pow2_def)
    have "\<bar>n\<bar> = 2 ^ 53" using lo assms e by simp
    then obtain h where h: "n = 2 * h"
      by (cases "0 \<le> n") (auto intro: that [of "2 ^ 52"] that [of "- (2 ^ 52)"])
    have "real_of_int n / pow2 (e - 52) = of_int h" by (simp add: p h)
    then have rh: "roundEven (real_of_int n / pow2 (e - 52)) = h"
      by (simp only: roundEven_of_int)
    show ?thesis unfolding r rh by (simp add: p h)
  qed
qed

lemma rnd_of_int:
  assumes "\<bar>n\<bar> \<le> 2 ^ 53"
  shows "rnd (of_int n) = Finite (of_int n)"
proof -
  have "\<bar>real_of_int n\<bar> \<le> 2 ^ 53"
    using assms by (metis of_int_abs of_int_le_iff of_int_numeral of_int_power)
  then have "real_of_int n < 2 ^ 1024" "- (2 ^ 1024) < real_of_int n"
    by (simp_all add: abs_le_iff)
  then show ?thesis
    using round64_of_int [OF assms] by (simp add: rnd_def)
qed

lemma rnd_numeral:
  "numeral k \<le> (2::int) ^ 53 \<Longrightarrow> rnd (numeral k) = Finite (numeral k)"
  "numeral k \<le> (2::int) ^ 53 \<Longrightarrow> rnd (- numeral k) = Finite (- numeral k)"
  "rnd 0 = Finite 0"
  "rnd 1 = Finite 1"
  "rnd (- 1) = Finite (- 1)"
  using rnd_of_int [of "numeral k"] rnd_of_int [of "- numeral k"] rnd_of_int [of 0]
    rnd_of_int [of 1] rnd_of_int [of "- 1"]
  by simp_all

text \<open>An operation on finite numbers whose rounded result is finite.\<close>

lemma rnd_finite: "round64 x = r \<Longrightarrow> \<bar>r\<bar> < 2 ^ 1024 \<Longrightarrow> rnd x = Finite r"
  by (auto simp: rnd_def)

lemma fadd_finite:
  "round64 (a + b) = r \<Longrightarrow> \<bar>r\<bar> < 2 ^ 1024 \<Longrightarrow> fadd (Finite a) (Finite b) = Finite r"
  by (simp add: rnd_finite)




subsection \<open>The example inputs\<close>

lemmas example_defs = exampleEnv_def exampleState_def exampleTransport_def emptyTickData_def
  exampleTile_def exampleBuilding_def exampleXyToPoint_def examplePointToXy_def

subsection \<open>Ledgers and pools\<close>

lemma lookup0_safeAdd:
  "lookup0 (safeAdd obj k v) k' = (if k' = k then lookup0 obj k + v else lookup0 obj k')"
  by (simp add: lookup0_def safeAdd_def update_conv')

lemma getAvailableWorkers_useWorkers:
  "getAvailableWorkers (useWorkers r n k st) r' =
     getAvailableWorkers st r' - (if r' = r then n else 0)"
  by (simp add: getAvailableWorkers_def useWorkers_def lookup0_safeAdd)



lemma getAvailableWorkers_deleteReason:
  "getAvailableWorkers (deleteReason k st) res = getAvailableWorkers st res"
  by (simp add: getAvailableWorkers_def deleteReason_def)

subsection \<open>Transportation advancement\<close>

text \<open>The fuel a shipment must find this tick: nothing near the mausoleum.\<close>

lemma nearMausoleum_currentFuelAmount:
  "nearMausoleum m (tr\<lparr>currentFuelAmount := c\<rparr>) = nearMausoleum m tr"
  by (simp add: nearMausoleum_def)

lemma tickTransportation_frame:
  "tiles (snd (tickTransportation ev mah tr st)) = tiles st"
  "transportation (snd (tickTransportation ev mah tr st)) = transportation st"
  "toXy (fst (tickTransportation ev mah tr st)) = toXy tr"
  "ticksRequired (fst (tickTransportation ev mah tr st)) = ticksRequired tr"
  "amount (fst (tickTransportation ev mah tr st)) = amount tr"
  by (cases mah; simp add: tickTransportation_def Let_def useWorkers_def)+

text \<open>
  Claim C2, as the module has it. A record whose fuel kind is transportable advances
  by one tick whatever the pools hold, and reserves nothing. A record whose fuel kind
  is not transportable (a pool such as \<open>Worker\<close>) advances, and reserves its fuel need
  from the pool of its fuel kind, when that pool covers the need (the nominal fuel
  amount, or zero near the mausoleum); otherwise it stalls: \<^verbatim>\<open>hasEnoughFuel\<close> is
  cleared, \<^verbatim>\<open>ticksSpent\<close> and the pools stay as they are.
\<close>

theorem tickTransportation_fuel_gate:
  "(isTransportable ev (fuel tr) \<longrightarrow>
      tickTransportation ev mah tr st =
        (tr\<lparr>ticksSpent := ticksSpent tr + 1, hasEnoughFuel := True\<rparr>, st)) \<and>
   (\<not> isTransportable ev (fuel tr) \<and> fuelNeed mah tr \<le> getAvailableWorkers st (fuel tr) \<longrightarrow>
      tickTransportation ev mah tr st =
        (tr\<lparr>currentFuelAmount := fuelNeed mah tr, ticksSpent := ticksSpent tr + 1,
            hasEnoughFuel := True\<rparr>,
         useWorkers (fuel tr) (fuelNeed mah tr) None st)) \<and>
   (\<not> isTransportable ev (fuel tr) \<and> getAvailableWorkers st (fuel tr) < fuelNeed mah tr \<longrightarrow>
      tickTransportation ev mah tr st =
        (tr\<lparr>currentFuelAmount := fuelNeed mah tr, hasEnoughFuel := False\<rparr>, st))"
  by (cases mah)
    (auto simp: tickTransportation_def fuelNeed_def Let_def nearMausoleum_currentFuelAmount)

text \<open>
  The three cases of C2 at concrete records: coal as fuel with empty pools, labor as
  fuel with one unit of labor, and labor as fuel with none.
\<close>

theorem tickTransportation_fuel_gate_witness:
  "isTransportable exampleEnv (fuel (exampleTransport ''Coal'' 0)) \<and>
   tickTransportation exampleEnv None (exampleTransport ''Coal'' 0) (exampleState [] 0) =
     ((exampleTransport ''Coal'' 0)\<lparr>ticksSpent := 1, hasEnoughFuel := True\<rparr>, exampleState [] 0) \<and>
   \<not> isTransportable exampleEnv (fuel (exampleTransport ''Worker'' 0)) \<and>
   fuelNeed None (exampleTransport ''Worker'' 0) \<le> getAvailableWorkers (exampleState [] 1) ''Worker'' \<and>
   tickTransportation exampleEnv None (exampleTransport ''Worker'' 0) (exampleState [] 1) =
     ((exampleTransport ''Worker'' 0)\<lparr>ticksSpent := 1, hasEnoughFuel := True\<rparr>,
      useWorkers ''Worker'' 1 None (exampleState [] 1)) \<and>
   getAvailableWorkers (exampleState [] 0) ''Worker'' < fuelNeed None (exampleTransport ''Worker'' 0) \<and>
   tickTransportation exampleEnv None (exampleTransport ''Worker'' 0) (exampleState [] 0) =
     ((exampleTransport ''Worker'' 0)\<lparr>hasEnoughFuel := False\<rparr>, exampleState [] 0)"
  using tickTransportation_fuel_gate [of exampleEnv "exampleTransport ''Coal'' 0" None "exampleState [] 0"]
    tickTransportation_fuel_gate [of exampleEnv "exampleTransport ''Worker'' 0" None "exampleState [] 1"]
    tickTransportation_fuel_gate [of exampleEnv "exampleTransport ''Worker'' 0" None "exampleState [] 0"]
  by (simp add: example_defs fuelNeed_def getAvailableWorkers_def lookup0_def)

text \<open>
  Claim C2 as the spec words it fails: a record whose fuel kind \<open>Worker\<close> is not
  transportable stalls when the pool is empty, and a record whose fuel kind \<open>Coal\<close> is
  transportable advances although no pool covers its fuel amount.
\<close>

theorem nontransportable_fuel_stalls:
  "\<not> isTransportable exampleEnv (fuel (exampleTransport ''Worker'' 0)) \<and>
   ticksSpent (fst (tickTransportation exampleEnv None (exampleTransport ''Worker'' 0) (exampleState [] 0)))
     = ticksSpent (exampleTransport ''Worker'' 0) \<and>
   \<not> hasEnoughFuel (fst (tickTransportation exampleEnv None (exampleTransport ''Worker'' 0) (exampleState [] 0))) \<and>
   isTransportable exampleEnv (fuel (exampleTransport ''Coal'' 0)) \<and>
   getAvailableWorkers (exampleState [] 0) ''Coal'' < fuelAmount (exampleTransport ''Coal'' 0) \<and>
   ticksSpent (fst (tickTransportation exampleEnv None (exampleTransport ''Coal'' 0) (exampleState [] 0)))
     = ticksSpent (exampleTransport ''Coal'' 0) + 1"
  by (simp add: tickTransportation_def example_defs getAvailableWorkers_def lookup0_def)

text \<open>A delivery changes no queue, and no tile that holds no building.\<close>

lemma deliver_frame:
  assumes "deliver tr st = Inr st'"
  shows "transportation st' = transportation st"
    and "map_of (tiles st) d = Some ti \<Longrightarrow> building ti = None \<Longrightarrow> map_of (tiles st') d = Some ti"
  using assms
  by (auto simp: deliver_def setBuilding_def map_of_map_entry split: option.splits)

lemma transportStep_frame:
  assumes "transportStep ev mah tr st = Inr (keep, tr', st')"
  shows "transportation st' = transportation st"
    and "map_of (tiles st) d = Some ti \<Longrightarrow> building ti = None \<Longrightarrow> map_of (tiles st') d = Some ti"
    and "keep \<Longrightarrow> ticksSpent tr' < ticksRequired tr'"
proof -
  obtain tr1 st1 where adv: "tickTransportation ev mah tr st = (tr1, st1)"
    by (cases "tickTransportation ev mah tr st")
  have fr: "tiles st1 = tiles st" "transportation st1 = transportation st"
    using tickTransportation_frame [of ev mah tr st] adv by simp_all
  show "transportation st' = transportation st"
    using assms adv fr deliver_frame(1) [of tr1 st1]
    by (auto simp: transportStep_def split: if_splits sum.splits)
  show "map_of (tiles st) d = Some ti \<Longrightarrow> building ti = None \<Longrightarrow> map_of (tiles st') d = Some ti"
    using assms adv fr deliver_frame(2) [of tr1 st1 _ d ti]
    by (auto simp: transportStep_def split: if_splits sum.splits)
  show "keep \<Longrightarrow> ticksSpent tr' < ticksRequired tr'"
    using assms adv by (auto simp: transportStep_def split: if_splits sum.splits)
qed

lemma filterQueue_frame:
  assumes "filterQueue ev mah q st = Inr (q', st')"
  shows "transportation st' = transportation st"
    and "map_of (tiles st) d = Some ti \<Longrightarrow> building ti = None \<Longrightarrow> map_of (tiles st') d = Some ti"
    and "\<forall>r \<in> set q'. ticksSpent r < ticksRequired r"
  using assms
proof (induction q arbitrary: st q')
  case Nil
  { case 1 then show ?case by simp }
  { case 2 then show ?case by simp }
  { case 3 then show ?case by simp }
next
  case (Cons tr q)
  { case 1
    then obtain keep tr' st1 q1 where
      step: "transportStep ev mah tr st = Inr (keep, tr', st1)"
      and rest: "filterQueue ev mah q st1 = Inr (q1, st')"
      by (auto split: sum.splits prod.splits)
    show ?case using Cons.IH(1) [OF rest] transportStep_frame(1) [OF step] by simp }
  { case 2
    then obtain keep tr' st1 q1 where
      step: "transportStep ev mah tr st = Inr (keep, tr', st1)"
      and rest: "filterQueue ev mah q st1 = Inr (q1, st')"
      by (auto split: sum.splits prod.splits)
    show ?case
      using Cons.IH(2) [OF transportStep_frame(2) [OF step "2.prems"(1,2)] "2.prems"(2) rest]
      by simp }
  { case 3
    then obtain keep tr' st1 q1 where
      step: "transportStep ev mah tr st = Inr (keep, tr', st1)"
      and rest: "filterQueue ev mah q st1 = Inr (q1, st')"
      and q': "q' = (if keep then tr' # q1 else q1)"
      by (auto split: sum.splits prod.splits)
    show ?case
      using Cons.IH(3) [OF rest] transportStep_frame(3) [OF step] q' by auto }
qed

text \<open>
  After the queues of a list of entries were filtered, the queue stored for each of
  their keys holds only records that have not arrived, the queues of the other keys
  are as before, and so is every tile without a building.
\<close>

lemma tickQueues_frame:
  assumes "tickQueues ev mah entries st = Inr st'"
  shows "\<forall>k \<in> fst ` set entries. \<exists>q'. map_of (transportation st') k = Some q' \<and>
            (\<forall>r \<in> set q'. ticksSpent r < ticksRequired r)"
    and "\<forall>k. k \<notin> fst ` set entries \<longrightarrow>
            map_of (transportation st') k = map_of (transportation st) k"
    and "map_of (tiles st) d = Some ti \<Longrightarrow> building ti = None \<Longrightarrow> map_of (tiles st') d = Some ti"
  using assms
proof (induction entries arbitrary: st)
  case Nil
  { case 1 then show ?case by simp }
  { case 2 then show ?case by simp }
  { case 3 then show ?case by simp }
next
  case (Cons kq entries)
  obtain k q where kq: "kq = (k, q)" by (cases kq)
  { fix s assume run: "tickQueues ev mah (kq # entries) s = Inr st'"
    then obtain q' s1 where
      flt: "filterQueue ev mah q s = Inr (q', s1)"
      and rest: "tickQueues ev mah entries
                   (s1\<lparr>transportation := AList.update k q' (transportation s1)\<rparr>) = Inr st'"
      unfolding kq by (auto split: sum.splits prod.splits)
    note fq = filterQueue_frame [OF flt]
    have keys: "\<forall>j \<in> fst ` set (kq # entries). \<exists>q'. map_of (transportation st') j = Some q' \<and>
            (\<forall>r \<in> set q'. ticksSpent r < ticksRequired r)"
    proof
      fix j assume j: "j \<in> fst ` set (kq # entries)"
      show "\<exists>q'. map_of (transportation st') j = Some q' \<and>
            (\<forall>r \<in> set q'. ticksSpent r < ticksRequired r)"
      proof (cases "j \<in> fst ` set entries")
        case True
        then show ?thesis using Cons.IH(1) [OF rest] by blast
      next
        case False
        then have "j = k" using j kq by auto
        moreover have "map_of (transportation st') j
            = map_of (AList.update k q' (transportation s1)) j"
          using Cons.IH(2) [OF rest] False by simp
        ultimately show ?thesis using fq(3) by (simp add: update_conv')
      qed
    qed
    have others: "\<forall>j. j \<notin> fst ` set (kq # entries) \<longrightarrow>
            map_of (transportation st') j = map_of (transportation s) j"
      using Cons.IH(2) [OF rest] fq(1) kq by (auto simp: update_conv')
    have vacant: "map_of (tiles s) d = Some ti \<Longrightarrow> building ti = None
            \<Longrightarrow> map_of (tiles st') d = Some ti"
      using Cons.IH(3) [OF _ _ rest] fq(2) by simp
    note keys others vacant }
  note step = this
  { case 1 then show ?case using step(1) by blast }
  { case 2 then show ?case using step(2) by blast }
  { case 3 then show ?case using step(3) by blast }
qed

lemma tickTransportations_frame:
  assumes "tickTransportations ev st = Inr st'"
  shows "\<forall>k q'. map_of (transportation st') k = Some q' \<longrightarrow>
            (\<forall>r \<in> set q'. ticksSpent r < ticksRequired r)"
    and "\<forall>d ti. map_of (tiles st) d = Some ti \<and> building ti = None \<longrightarrow>
            map_of (tiles st') d = Some ti"
proof -
  note fr = tickQueues_frame [OF assms [unfolded tickTransportations_def]]
  show "\<forall>k q'. map_of (transportation st') k = Some q' \<longrightarrow>
            (\<forall>r \<in> set q'. ticksSpent r < ticksRequired r)"
  proof (intro allI impI)
    fix k q' assume q': "map_of (transportation st') k = Some q'"
    show "\<forall>r \<in> set q'. ticksSpent r < ticksRequired r"
    proof (cases "k \<in> fst ` set (transportation st)")
      case True
      then show ?thesis using fr(1) q' by fastforce
    next
      case False
      then have "map_of (transportation st') k = None"
        using fr(2) by (simp add: map_of_eq_None_iff)
      then show ?thesis using q' by simp
    qed
  qed
  show "\<forall>d ti. map_of (tiles st) d = Some ti \<and> building ti = None \<longrightarrow>
            map_of (tiles st') d = Some ti"
    using fr(3) by blast
qed

text \<open>
  Claim C10. When the advanced record has reached \<^verbatim>\<open>ticksRequired\<close> and the tile it
  is bound for holds no building, the callback answers \<^verbatim>\<open>false\<close> and hands on the
  state the advance itself left: no tile and no queue has changed, so the amount is
  credited to no ledger, and the filtered queue is that of the remaining records
  alone. When the record is the first of the first queue, \<^verbatim>\<open>tickTransportations\<close>
  goes on with the rest of that queue and stores the filtered rest under the queue's
  key. When \<^verbatim>\<open>tickTransportations\<close> has returned, every queue of the state holds only
  records that have not arrived, and the tile the record was bound for is as it was.
\<close>

theorem arrival_without_building_drops_shipment:
  assumes arrived: "ticksRequired tr \<le> ticksSpent (fst (tickTransportation ev mah tr st))"
    and dest: "map_of (tiles st) (toXy tr) = Some ti"
    and nobuilding: "building ti = None"
  shows "transportStep ev mah tr st =
           Inr (False, fst (tickTransportation ev mah tr st), snd (tickTransportation ev mah tr st)) \<and>
         filterQueue ev mah (tr # q) st = filterQueue ev mah q (snd (tickTransportation ev mah tr st)) \<and>
         tiles (snd (tickTransportation ev mah tr st)) = tiles st \<and>
         transportation (snd (tickTransportation ev mah tr st)) = transportation st \<and>
         (mah = mausoleum ev st \<and> transportation st = (k, tr # q) # rest \<longrightarrow>
            tickTransportations ev st =
              (case filterQueue ev mah q (snd (tickTransportation ev mah tr st)) of
                 Inl e \<Rightarrow> Inl e
               | Inr (q', st2) \<Rightarrow>
                   tickQueues ev mah rest
                     (st2\<lparr>transportation := AList.update k q' (transportation st2)\<rparr>))) \<and>
         (\<forall>st'. tickTransportations ev st = Inr st' \<longrightarrow>
            (\<forall>j q'. map_of (transportation st') j = Some q' \<longrightarrow>
               (\<forall>r \<in> set q'. ticksSpent r < ticksRequired r)) \<and>
            map_of (tiles st') (toXy tr) = Some ti)"
proof -
  obtain tr' st1 where adv: "tickTransportation ev mah tr st = (tr', st1)"
    by (cases "tickTransportation ev mah tr st")
  have fr: "tiles st1 = tiles st" "toXy tr' = toXy tr" "ticksRequired tr' = ticksRequired tr"
    using tickTransportation_frame [of ev mah tr st] adv by simp_all
  have "deliver tr' st1 = Inr st1"
    using dest nobuilding fr by (simp add: deliver_def)
  then have step: "transportStep ev mah tr st = Inr (False, tr', st1)"
    using arrived adv fr by (simp add: transportStep_def)
  have flt: "filterQueue ev mah (tr # q) st = filterQueue ev mah q st1"
    by (simp add: step split: sum.splits prod.splits)
  have local: "transportStep ev mah tr st =
           Inr (False, fst (tickTransportation ev mah tr st), snd (tickTransportation ev mah tr st)) \<and>
         filterQueue ev mah (tr # q) st = filterQueue ev mah q (snd (tickTransportation ev mah tr st)) \<and>
         tiles (snd (tickTransportation ev mah tr st)) = tiles st \<and>
         transportation (snd (tickTransportation ev mah tr st)) = transportation st"
    using flt step adv tickTransportation_frame [of ev mah tr st] by simp
  have head: "mah = mausoleum ev st \<and> transportation st = (k, tr # q) # rest \<longrightarrow>
            tickTransportations ev st =
              (case filterQueue ev mah q (snd (tickTransportation ev mah tr st)) of
                 Inl e \<Rightarrow> Inl e
               | Inr (q', st2) \<Rightarrow>
                   tickQueues ev mah rest
                     (st2\<lparr>transportation := AList.update k q' (transportation st2)\<rparr>))"
  proof (intro impI, elim conjE)
    assume m: "mah = mausoleum ev st" and t: "transportation st = (k, tr # q) # rest"
    have "tickTransportations ev st = tickQueues ev mah ((k, tr # q) # rest) st"
      by (simp only: tickTransportations_def m t)
    also have "\<dots> = (case filterQueue ev mah q (snd (tickTransportation ev mah tr st)) of
                 Inl e \<Rightarrow> Inl e
               | Inr (q', st2) \<Rightarrow>
                   tickQueues ev mah rest
                     (st2\<lparr>transportation := AList.update k q' (transportation st2)\<rparr>))"
      by (simp only: tickQueues.simps flt adv snd_conv)
    finally show "tickTransportations ev st =
              (case filterQueue ev mah q (snd (tickTransportation ev mah tr st)) of
                 Inl e \<Rightarrow> Inl e
               | Inr (q', st2) \<Rightarrow>
                   tickQueues ev mah rest
                     (st2\<lparr>transportation := AList.update k q' (transportation st2)\<rparr>))" .
  qed
  have whole: "\<forall>st'. tickTransportations ev st = Inr st' \<longrightarrow>
            (\<forall>j q'. map_of (transportation st') j = Some q' \<longrightarrow>
               (\<forall>r \<in> set q'. ticksSpent r < ticksRequired r)) \<and>
            map_of (tiles st') (toXy tr) = Some ti"
    using tickTransportations_frame [of ev st] dest nobuilding by blast
  show ?thesis using local head whole by blast
qed

text \<open>
  C10 at a queue of two shipments of coal bound for a tile without a building: the one
  on its last tick is gone from the queue, the other has advanced by a tick, and
  nothing else has changed.
\<close>

theorem arrival_without_building_drops_shipment_witness:
  "ticksRequired (exampleTransport ''Coal'' 2)
     \<le> ticksSpent (fst (tickTransportation exampleEnv None (exampleTransport ''Coal'' 2)
                          strandedExample)) \<and>
   map_of (tiles strandedExample) (toXy (exampleTransport ''Coal'' 2)) = Some (exampleTile None) \<and>
   building (exampleTile None) = None \<and>
   transportation strandedExample
     = [(''1,0'', [exampleTransport ''Coal'' 2, exampleTransport ''Coal'' 0])] \<and>
   tickTransportations exampleEnv strandedExample
     = Inr (strandedExample\<lparr>transportation :=
              [(''1,0'', [(exampleTransport ''Coal'' 0)\<lparr>ticksSpent := 1\<rparr>])]\<rparr>)"
proof -
  let ?tr = "exampleTransport ''Coal'' 2"
  have adv: "tickTransportation exampleEnv None ?tr strandedExample
               = (?tr\<lparr>ticksSpent := 3\<rparr>, strandedExample)"
    by (simp add: tickTransportation_def example_defs)
  have arrived: "ticksRequired ?tr \<le> ticksSpent (fst (tickTransportation exampleEnv None ?tr strandedExample))"
    unfolding adv by (simp add: example_defs)
  have dest: "map_of (tiles strandedExample) (toXy ?tr) = Some (exampleTile None)"
    by (simp add: strandedExample_def example_defs)
  have nobuilding: "building (exampleTile None) = None" by (simp add: exampleTile_def)
  have mah: "None = mausoleum exampleEnv strandedExample"
    by (simp add: mausoleum_def strandedExample_def example_defs)
  have queue: "transportation strandedExample = (''1,0'', ?tr # [exampleTransport ''Coal'' 0]) # []"
    by (simp add: strandedExample_def example_defs)
  have rest: "filterQueue exampleEnv None [exampleTransport ''Coal'' 0] strandedExample
                = Inr ([(exampleTransport ''Coal'' 0)\<lparr>ticksSpent := 1\<rparr>], strandedExample)"
    by (simp add: transportStep_def tickTransportation_def example_defs)
  have "None = mausoleum exampleEnv strandedExample
          \<and> transportation strandedExample = (''1,0'', ?tr # [exampleTransport ''Coal'' 0]) # [] \<longrightarrow>
        tickTransportations exampleEnv strandedExample =
          (case filterQueue exampleEnv None [exampleTransport ''Coal'' 0]
                  (snd (tickTransportation exampleEnv None ?tr strandedExample)) of
             Inl e \<Rightarrow> Inl e
           | Inr (q', st2) \<Rightarrow>
               tickQueues exampleEnv None []
                 (st2\<lparr>transportation := AList.update ''1,0'' q' (transportation st2)\<rparr>))"
    using arrival_without_building_drops_shipment
      [OF arrived dest nobuilding, of "[exampleTransport ''Coal'' 0]" "''1,0''" "[]"]
    by blast
  then have "tickTransportations exampleEnv strandedExample =
          (case filterQueue exampleEnv None [exampleTransport ''Coal'' 0]
                  (snd (tickTransportation exampleEnv None ?tr strandedExample)) of
             Inl e \<Rightarrow> Inl e
           | Inr (q', st2) \<Rightarrow>
               tickQueues exampleEnv None []
                 (st2\<lparr>transportation := AList.update ''1,0'' q' (transportation st2)\<rparr>))"
    using mah queue by blast
  then have "tickTransportations exampleEnv strandedExample
          = Inr (strandedExample\<lparr>transportation :=
                   AList.update ''1,0'' [(exampleTransport ''Coal'' 0)\<lparr>ticksSpent := 1\<rparr>]
                     (transportation strandedExample)\<rparr>)"
    by (simp only: adv snd_conv rest sum.case prod.case tickQueues.simps)
  then have "tickTransportations exampleEnv strandedExample
     = Inr (strandedExample\<lparr>transportation :=
              [(''1,0'', [(exampleTransport ''Coal'' 0)\<lparr>ticksSpent := 1\<rparr>])]\<rparr>)"
    by (simp add: queue)
  then show ?thesis using arrived dest nobuilding queue by simp
qed

subsection \<open>The order of the tiles\<close>

lemma compareTiles_precedes: "compareTiles ev a b \<le> 0 \<longleftrightarrow> precedes ev a b"
  by (auto simp: compareTiles_def precedes_def tier_def)

lemma precedes_total: "precedes ev a b \<or> precedes ev b a"
  by (auto simp: precedes_def)

lemma precedes_trans: "precedes ev a b \<Longrightarrow> precedes ev b c \<Longrightarrow> precedes ev a c"
  by (auto simp: precedes_def)

lemma set_insertBy: "set (insertBy cmp x ys) = insert x (set ys)"
  by (induction ys) auto

lemma mset_insertBy: "mset (insertBy cmp x ys) = add_mset x (mset ys)"
  by (induction ys) auto

lemma mset_sortBy: "mset (sortBy cmp xs) = mset xs"
  by (induction xs) (simp_all add: sortBy_def mset_insertBy)

text \<open>Insertion keeps a list sorted when the comparator is total and transitive.\<close>

lemma sorted_insertBy:
  assumes tot: "\<And>a b. cmp a b \<le> 0 \<or> cmp b a \<le> 0"
    and tr: "\<And>a b c. cmp a b \<le> 0 \<Longrightarrow> cmp b c \<le> 0 \<Longrightarrow> cmp a c \<le> 0"
  shows "sorted_wrt (\<lambda>a b. cmp a b \<le> 0) ys
           \<Longrightarrow> sorted_wrt (\<lambda>a b. cmp a b \<le> 0) (insertBy cmp x ys)"
proof (induction ys)
  case Nil
  then show ?case by simp
next
  case (Cons y ys)
  show ?case
  proof (cases "cmp x y \<le> 0")
    case True
    then have "\<forall>z \<in> set ys. cmp x z \<le> 0"
      using Cons.prems tr by auto
    with True Cons.prems show ?thesis by simp
  next
    case False
    then have "cmp y x \<le> 0" using tot [of x y] by simp
    with False Cons show ?thesis by (auto simp: set_insertBy)
  qed
qed

lemma sorted_sortBy:
  assumes tot: "\<And>a b. cmp a b \<le> 0 \<or> cmp b a \<le> 0"
    and tr: "\<And>a b c. cmp a b \<le> 0 \<Longrightarrow> cmp b c \<le> 0 \<Longrightarrow> cmp a c \<le> 0"
  shows "sorted_wrt (\<lambda>a b. cmp a b \<le> 0) (sortBy cmp xs)"
proof (induction xs)
  case Nil
  then show ?case by (simp add: sortBy_def)
next
  case (Cons x xs)
  then show ?case
    using sorted_insertBy [of cmp, OF tot tr] by (simp add: sortBy_def)
qed

text \<open>The loop of lines 243 to 245 as a fold of \<^verbatim>\<open>tickTile\<close> that stops at a fault.\<close>

lemma tickTileList_foldl:
  "tickTileList ev offline ks st =
     foldl (\<lambda>r k. case r of Inl e \<Rightarrow> Inl e | Inr s \<Rightarrow> tickTile ev k offline s) (Inr st) ks"
proof (induction ks arbitrary: st)
  case Nil
  then show ?case by simp
next
  case (Cons k ks)
  have stuck: "\<And>e. foldl (\<lambda>r k. case r of Inl e \<Rightarrow> Inl e | Inr s \<Rightarrow> tickTile ev k offline s)
                      (Inl e) ks = Inl e"
    by (induction ks) simp_all
  show ?case using Cons.IH stuck by (simp split: sum.splits)
qed

text \<open>
  Claim C4, as the module has it. \<^verbatim>\<open>tickTiles\<close> ticks the keys of the sorted list one
  after the other, each on the state the one before left, and stops at the first that
  throws. The sorted list is a permutation of the tiles that hold a building, and it is
  ordered by the buildings as they are stored when the sort runs, before any tile is
  ticked: a tile never stands after one it must precede, tiles whose status is
  \<open>Building\<close> or \<open>Upgrading\<close> first, then by falling priority, then by rising tier.
\<close>

theorem tickTiles_order:
  "tickTiles ev offline st =
     foldl (\<lambda>r k. case r of Inl e \<Rightarrow> Inl e | Inr s \<Rightarrow> tickTile ev k offline s) (Inr st)
       (map fst (sortBy (compareTiles ev) (getXyBuildings st))) \<and>
   mset (sortBy (compareTiles ev) (getXyBuildings st)) = mset (getXyBuildings st) \<and>
   sorted_wrt (precedes ev) (sortBy (compareTiles ev) (getXyBuildings st))"
proof -
  have "sorted_wrt (\<lambda>a b. compareTiles ev a b \<le> 0) (sortBy (compareTiles ev) (getXyBuildings st))"
    by (rule sorted_sortBy)
      (use precedes_total precedes_trans in \<open>auto simp: compareTiles_precedes\<close>)
  then show ?thesis
    by (simp add: compareTiles_precedes tickTiles_def sortedTiles_def mset_sortBy
        tickTileList_foldl)
qed

text \<open>The unfolding of a tick of a tile, for the concrete instances.\<close>

lemmas tick_defs = tickTile_def tickCompleted_def tickConstruction_def costStep_def
  registerTile_def indexResources_def indexResource_def missingDeposit_def inputStep_def
  autopilotPhase_def tickProduction_def produce_def produceOutput_def electrify_def
  creditBuilding_def transportResource_def filterTransportable_def nonTransportables_def
  getAvailableWorkers_def useWorkers_def setReason_def deleteReason_def setBuilding_def
  notify_def safeAdd_def safePush_def lookup0_def Let_def

lemma upgrade_order:
  "sortedTiles exampleEnv (exampleState upgradeExample 2) = [''0,0'', ''1,0'']"
  by (simp add: sortedTiles_def sortBy_def getXyBuildings_def List.map_filter_def
      upgradeExample_def example_defs compareTiles_def isBuildingOrUpgrading_def)

text \<open>
  Claim C4 as the spec words it fails. The hut at \<open>1,0\<close> is stored as completed, with
  a desired level above its level; it is sorted after the workshop of higher
  priority. The workshop produces and takes the two units of labor; the hut is then
  ticked as a building under upgrade and finds none. Ticked first, it would have
  found its unit of labor.
\<close>

theorem upgrade_started_is_ticked_last:
  "sortedTiles exampleEnv (exampleState upgradeExample 2) = [''0,0'', ''1,0''] \<and>
   map_option (map_option status \<circ> building)
     (map_of (tiles (exampleState upgradeExample 2)) ''1,0'') = Some (Some Completed) \<and>
   map_sum id (\<lambda>s. (map_option (map_option status \<circ> building) (map_of (tiles s) ''1,0''),
                     map_of (notProducingReasons (tickNext s)) ''1,0'',
                     getAvailableWorkers s ''Worker''))
     (tickTiles exampleEnv True (exampleState upgradeExample 2))
     = Inr (Some (Some Upgrading), Some NotEnoughWorkers, 0) \<and>
   map_sum id (\<lambda>s. (map_option (map_option status \<circ> building) (map_of (tiles s) ''1,0''),
                     map_of (notProducingReasons (tickNext s)) ''1,0'',
                     getAvailableWorkers s ''Worker''))
     (tickTile exampleEnv ''1,0'' True (exampleState upgradeExample 2))
     = Inr (Some (Some Upgrading), None, 1)"
proof -
  have a: "map_sum id (\<lambda>s. (map_option (map_option status \<circ> building) (map_of (tiles s) ''1,0''),
                     map_of (notProducingReasons (tickNext s)) ''1,0'',
                     getAvailableWorkers s ''Worker''))
     (tickTiles exampleEnv True (exampleState upgradeExample 2))
     = Inr (Some (Some Upgrading), Some NotEnoughWorkers, 0)"
    unfolding tickTiles_def upgrade_order
    by (simp add: tick_defs upgradeExample_def example_defs)
  have b: "map_sum id (\<lambda>s. (map_option (map_option status \<circ> building) (map_of (tiles s) ''1,0''),
                     map_of (notProducingReasons (tickNext s)) ''1,0'',
                     getAvailableWorkers s ''Worker''))
     (tickTile exampleEnv ''1,0'' True (exampleState upgradeExample 2))
     = Inr (Some (Some Upgrading), None, 1)"
    by (simp add: tick_defs upgradeExample_def example_defs)
  have c: "map_option (map_option status \<circ> building)
     (map_of (tiles (exampleState upgradeExample 2)) ''1,0'') = Some (Some Completed)"
    by (simp add: upgradeExample_def example_defs)
  show ?thesis using upgrade_order a b c by blast
qed

text \<open>
  C4 on five tiles: the hut under upgrade, the hut of priority 3, the hut of tier 1,
  the farm of tier 2; the tile without a building is not ticked.
\<close>

theorem tickTiles_order_witness:
  "sortedTiles exampleEnv (exampleState orderExample 0) = [''3,0'', ''1,0'', ''4,0'', ''0,0''] \<and>
   sorted_wrt (precedes exampleEnv)
     (sortBy (compareTiles exampleEnv) (getXyBuildings (exampleState orderExample 0))) \<and>
   tickTiles exampleEnv True (exampleState orderExample 0) =
     foldl (\<lambda>r k. case r of Inl e \<Rightarrow> Inl e | Inr s \<Rightarrow> tickTile exampleEnv k True s)
       (Inr (exampleState orderExample 0)) [''3,0'', ''1,0'', ''4,0'', ''0,0'']"
proof -
  have s: "sortedTiles exampleEnv (exampleState orderExample 0) = [''3,0'', ''1,0'', ''4,0'', ''0,0'']"
    by (simp add: sortedTiles_def sortBy_def getXyBuildings_def List.map_filter_def orderExample_def
        example_defs compareTiles_def isBuildingOrUpgrading_def)
  show ?thesis
    using tickTiles_order [of exampleEnv True "exampleState orderExample 0"] s
    unfolding sortedTiles_def by simp
qed

subsection \<open>The market pricer\<close>

lemma noSelfTrade_alt: "noSelfTrade m \<longleftrightarrow> (\<forall>r. map_of m r \<noteq> Some (Some r))"
  by (auto simp: noSelfTrade_def dest: map_of_SomeD) (metis fst_conv image_eqI map_of_SomeD)

lemma skipSame_stops:
  assumes "skipSame buy res idx = Some i"
  shows "nthMod buy i \<noteq> Some res"
  using assms
proof (induction buy res idx i rule: skipSame.raw_induct)
  case (1 rec buy res idx i)
  show ?case
  proof (cases "nthMod buy idx = Some res")
    case True
    have body: "rec buy res (idx + 1) = Some i" using 1 True by simp
    have again: "skipSame buy res (idx + 1) = Some i"
      using "1.prems" True by (subst (asm) skipSame.simps) simp
    show ?thesis using 1 body again by blast
  next
    case False
    then show ?thesis using 1 by simp
  qed
qed (rule assms)

lemma skipSame_returns_after:
  "nthMod buy (idx + k) \<noteq> Some res \<Longrightarrow> \<exists>i. skipSame buy res idx = Some i"
proof (induction k arbitrary: idx)
  case 0
  then show ?case by (subst skipSame.simps) simp
next
  case (Suc k)
  show ?case
  proof (cases "nthMod buy idx = Some res")
    case True
    from Suc.prems have "nthMod buy (Suc idx + k) \<noteq> Some res" by simp
    from Suc.IH [OF this] True show ?thesis
      by (subst skipSame.simps) simp
  next
    case False
    then show ?thesis by (subst skipSame.simps) simp
  qed
qed

lemma reach_index:
  assumes "j < length buy"
  shows "nthMod buy (idx + (j + (length buy - 1) * idx)) = Some (buy ! j)"
proof -
  have ne: "buy \<noteq> []" using assms by auto
  have e: "idx + (j + (length buy - 1) * idx) = j + idx * length buy"
    using assms by (cases "length buy") (simp_all add: algebra_simps)
  have "(idx + (j + (length buy - 1) * idx)) mod length buy = (j + idx * length buy) mod length buy"
    by (simp only: e)
  also have "\<dots> = j" using assms by simp
  finally show ?thesis using ne unfolding nthMod_def by simp
qed

lemma skipSame_returns:
  assumes "buy = [] \<or> (\<exists>b \<in> set buy. b \<noteq> res)"
  shows "\<exists>i. skipSame buy res idx = Some i"
proof (cases "buy = []")
  case True
  then show ?thesis by (subst skipSame.simps) (simp add: nthMod_def)
next
  case False
  with assms obtain j where j: "j < length buy" "buy ! j \<noteq> res"
    by (auto simp: in_set_conv_nth)
  have "nthMod buy (idx + (j + (length buy - 1) * idx)) \<noteq> Some res"
    using reach_index [OF j(1), of idx] j(2) by simp
  then show ?thesis by (rule skipSame_returns_after)
qed

lemma skipSame_diverges: "skipSame [r] r idx = None"
proof (cases "skipSame [r] r idx")
  case None
  then show ?thesis .
next
  case (Some i)
  then have "nthMod [r] i \<noteq> Some r" by (rule skipSame_stops)
  then show ?thesis by (simp add: nthMod_def)
qed

lemma update_noSelf:
  assumes "noSelfTrade m" "v \<noteq> Some res"
  shows "noSelfTrade (AList.update res v m)"
  using assms by (auto simp: noSelfTrade_alt update_conv')

lemma assignPairs_sound:
  "assignPairs buy sell idx m = Some m' \<Longrightarrow>
     (\<forall>res \<in> set sell. \<exists>v. map_of m' res = Some v \<and> v \<noteq> Some res) \<and>
     (\<forall>r. r \<notin> set sell \<longrightarrow> map_of m' r = map_of m r) \<and>
     (noSelfTrade m \<longrightarrow> noSelfTrade m')"
proof (induction sell arbitrary: idx m)
  case Nil
  then show ?case by simp
next
  case (Cons res sell)
  from Cons.prems obtain idx' where
    skip: "skipSame buy res idx = Some idx'" and
    rest: "assignPairs buy sell idx' (AList.update res (nthMod buy idx') m) = Some m'"
    by (auto split: option.splits)
  have ne: "nthMod buy idx' \<noteq> Some res" using skip by (rule skipSame_stops)
  note IH = Cons.IH [OF rest]
  have "\<exists>v. map_of m' res = Some v \<and> v \<noteq> Some res"
  proof (cases "res \<in> set sell")
    case True
    then show ?thesis using IH by blast
  next
    case False
    then have "map_of m' res = map_of (AList.update res (nthMod buy idx') m) res"
      using IH by blast
    then show ?thesis using ne by (simp add: update_conv')
  qed
  moreover have "\<forall>r. r \<notin> set (res # sell) \<longrightarrow> map_of m' r = map_of m r"
    using IH by (auto simp: update_conv')
  moreover have "noSelfTrade m \<longrightarrow> noSelfTrade m'"
    using IH update_noSelf [OF _ ne] by blast
  ultimately show ?case using IH by auto
qed

lemma assignPairs_returns:
  assumes "buy = [] \<or> (\<exists>a \<in> set buy. \<exists>b \<in> set buy. a \<noteq> b)"
  shows "\<exists>m'. assignPairs buy sell idx m = Some m'"
proof (induction sell arbitrary: idx m)
  case Nil
  then show ?case by simp
next
  case (Cons res sell)
  have "buy = [] \<or> (\<exists>b \<in> set buy. b \<noteq> res)" using assms by metis
  then obtain i where "skipSame buy res idx = Some i"
    using skipSame_returns by blast
  then show ?case using Cons.IH by simp
qed

text \<open>
  Claim C7. On a market building whose pairing is refreshed (it is empty, or the hour
  bucket has changed): if the callback returns, every resource of the sell permutation
  has a buy partner other than itself, and the pairing as a whole trades no resource
  for itself if it did not before. The callback does return when the permutation is
  empty or holds two different resources.
\<close>

theorem priceMarket_no_self_trade:
  assumes market: "btype b = ''Market''"
    and refresh: "length (case availableResources b of None \<Rightarrow> [] | Some m \<Rightarrow> m) \<le> 0
                    \<or> forceUpdatePrice"
  shows "(\<forall>b'. priceMarket ev priceId forceUpdatePrice keys k b = Inr b' \<longrightarrow>
            (\<exists>m'. availableResources b' = Some m' \<and>
               (\<forall>res \<in> set (shuffle ev keys (priceId, k)).
                   \<exists>v. map_of m' res = Some v \<and> v \<noteq> Some res) \<and>
               (noSelfTrade (case availableResources b of None \<Rightarrow> [] | Some m \<Rightarrow> m)
                  \<longrightarrow> noSelfTrade m'))) \<and>
         (shuffle ev keys (priceId, k) = [] \<or>
            (\<exists>r1 \<in> set (shuffle ev keys (priceId, k)).
               \<exists>r2 \<in> set (shuffle ev keys (priceId, k)). r1 \<noteq> r2)
          \<longrightarrow> (\<exists>b'. priceMarket ev priceId forceUpdatePrice keys k b = Inr b'))"
proof -
  define m0 where "m0 = (case availableResources b of None \<Rightarrow> [] | Some m \<Rightarrow> m)"
  define sh where "sh = shuffle ev keys (priceId, k)"
  have pm: "priceMarket ev priceId forceUpdatePrice keys k b =
       (case assignPairs sh sh 0 m0 of
          None \<Rightarrow> Inl Diverges
        | Some m1 \<Rightarrow>
            if forceUpdatePrice \<and> hasFlag ev (marketOptions b) (flagClearAfterUpdate ev)
            then Inr (b\<lparr>availableResources := Some m1, sellResources := []\<rparr>)
            else Inr (b\<lparr>availableResources := Some m1\<rparr>))"
    using market refresh unfolding priceMarket_def m0_def sh_def Let_def by auto
  have sound: "\<forall>b'. priceMarket ev priceId forceUpdatePrice keys k b = Inr b' \<longrightarrow>
            (\<exists>m'. availableResources b' = Some m' \<and>
               (\<forall>res \<in> set sh. \<exists>v. map_of m' res = Some v \<and> v \<noteq> Some res) \<and>
               (noSelfTrade m0 \<longrightarrow> noSelfTrade m'))"
  proof (intro allI impI)
    fix b'
    assume r: "priceMarket ev priceId forceUpdatePrice keys k b = Inr b'"
    then obtain m1 where a: "assignPairs sh sh 0 m0 = Some m1" and b': "availableResources b' = Some m1"
      unfolding pm by (auto split: option.splits if_splits)
    from assignPairs_sound [OF a] b'
    show "\<exists>m'. availableResources b' = Some m' \<and>
               (\<forall>res \<in> set sh. \<exists>v. map_of m' res = Some v \<and> v \<noteq> Some res) \<and>
               (noSelfTrade m0 \<longrightarrow> noSelfTrade m')"
      by blast
  qed
  have total: "sh = [] \<or> (\<exists>r1 \<in> set sh. \<exists>r2 \<in> set sh. r1 \<noteq> r2)
          \<longrightarrow> (\<exists>b'. priceMarket ev priceId forceUpdatePrice keys k b = Inr b')"
  proof
    assume "sh = [] \<or> (\<exists>r1 \<in> set sh. \<exists>r2 \<in> set sh. r1 \<noteq> r2)"
    from assignPairs_returns [OF this, of sh 0 m0]
    obtain m1 where "assignPairs sh sh 0 m0 = Some m1" by blast
    then show "\<exists>b'. priceMarket ev priceId forceUpdatePrice keys k b = Inr b'"
      unfolding pm by simp
  qed
  show ?thesis using sound total unfolding m0_def sh_def by blast
qed

text \<open>
  C7 at a market without a pairing and the resources \<open>Wood\<close> and \<open>Stone\<close>: each is
  paired with the other.
\<close>

lemma skipSame_example:
  "skipSame [''Wood'', ''Stone''] ''Wood'' 0 = Some (Suc 0)"
  "skipSame [''Wood'', ''Stone''] ''Stone'' (Suc 0) = Some 2"
  by (simp_all add: skipSame.simps nthMod_def)

theorem priceMarket_no_self_trade_witness:
  "btype (exampleBuilding ''Market'' Completed []) = ''Market'' \<and>
   priceMarket exampleEnv 7 True [''Wood'', ''Stone''] ''0,0'' (exampleBuilding ''Market'' Completed [])
     = Inr ((exampleBuilding ''Market'' Completed [])
              \<lparr>availableResources := Some [(''Wood'', Some ''Stone''), (''Stone'', Some ''Wood'')]\<rparr>) \<and>
   noSelfTrade [(''Wood'', Some ''Stone''), (''Stone'', Some ''Wood'')]"
proof -
  let ?b = "exampleBuilding ''Market'' Completed []"
  have m: "btype ?b = ''Market''" by (simp add: exampleBuilding_def)
  have r: "length (case availableResources ?b of None \<Rightarrow> [] | Some m \<Rightarrow> m) \<le> 0 \<or> True"
    by simp
  have e: "priceMarket exampleEnv 7 True [''Wood'', ''Stone''] ''0,0'' ?b
     = Inr (?b\<lparr>availableResources := Some [(''Wood'', Some ''Stone''), (''Stone'', Some ''Wood'')]\<rparr>)"
    by (simp add: priceMarket_def example_defs skipSame_example nthMod_def numeral_2_eq_2)
  have "noSelfTrade [] \<longrightarrow> noSelfTrade [(''Wood'', Some ''Stone''), (''Stone'', Some ''Wood'')]"
    using priceMarket_no_self_trade [OF m r, of exampleEnv 7 "[''Wood'', ''Stone'']" "''0,0''"] e
    by (auto simp: exampleBuilding_def)
  then show ?thesis using m e by (simp add: noSelfTrade_def)
qed

text \<open>
  With exactly one eligible resource the loop of lines 696 to 698 has no index to stop
  at: the refresh of a market never returns.
\<close>

lemma priceMarket_single_resource_diverges:
  "priceMarket exampleEnv 7 True [''Wood''] ''0,0'' (exampleBuilding ''Market'' Completed [])
     = Inl Diverges"
  by (simp add: priceMarket_def example_defs skipSame_diverges)

subsection \<open>Construction and upgrade\<close>






subsection \<open>The transportation router\<close>















subsection \<open>Production\<close>








subsection \<open>The pools\<close>

text \<open>
  The reservations the module guards leave no pool negative: the fuel of a shipment,
  the unit of labor of a construction transport, and the power of electrification.
\<close>

lemma tickTransportation_pool_nonnegative:
  assumes "0 \<le> getAvailableWorkers st r"
  shows "0 \<le> getAvailableWorkers (snd (tickTransportation ev mah tr st)) r"
  using assms
  by (cases mah) (auto simp: tickTransportation_def Let_def getAvailableWorkers_useWorkers)

lemma construction_pool_nonnegative:
  assumes "0 \<le> getAvailableWorkers st r" "1 \<le> getAvailableWorkers st ''Worker''"
  shows "0 \<le> getAvailableWorkers (useWorkers ''Worker'' 1 (Some k) (deleteReason k st)) r"
  using assms by (simp add: getAvailableWorkers_useWorkers getAvailableWorkers_deleteReason)

lemma electrify_pool_nonnegative:
  assumes "0 \<le> getAvailableWorkers st r"
  shows "0 \<le> getAvailableWorkers (snd (electrify ev k b st)) r"
proof -
  have frame: "\<And>s f. getAvailableWorkers (s\<lparr>tickNext := (tickNext s)\<lparr>tileMultipliers := f,
        electrified := g\<rparr>\<rparr>) r = getAvailableWorkers s r" for g
    by (simp add: getAvailableWorkers_def)
  show ?thesis
    using assms
    by (auto simp: electrify_def Let_def frame getAvailableWorkers_useWorkers)
qed

text \<open>
  Claim C8 at the warehouse autopilot, which reserves without a test. With one unit
  of labor left, an idle capacity of 5 and a transport capacity of 5, the cap of line
  512 lets the capacity stand (one unit of labor would carry it); for the farm two
  tiles away \<^verbatim>\<open>upgradedTransportCapacity\<close> is \<^verbatim>\<open>Math.ceil(5 / 5) = 1\<close>, so
  \<^verbatim>\<open>workers\<close> is \<^verbatim>\<open>Math.ceil(5 / 1) = 5\<close>, and the reservation leaves the pool at -4.
\<close>

theorem autopilot_overdraws_labor:
  "getAvailableWorkers (exampleState depotExample 1) ''Worker'' = 1 \<and>
   map_sum id (\<lambda>r. (fst r, getAvailableWorkers (snd r) ''Worker''))
     (tickWarehouseAutopilot exampleEnv
        ((exampleBuilding ''Warehouse'' Completed [])\<lparr>warehouseOptions := Some 1\<rparr>) ''0,0''
        (exampleState depotExample 1))
     = Inr (True, - 4)"
  by (simp add: tickWarehouseAutopilot_def fclamp_def fmin_def fmax_def fsub_def rnd_numeral
      transportCapacityBonus_def
      getAvailableWorkers_def lookup0_def sortBy_def getXyBuildings_def List.map_filter_def
      useWorkers_def setBuilding_def addTransportation_def safeAdd_def safePush_def
      depotExample_def example_defs)

subsection \<open>The status of a building\<close>

text \<open>
  The status and the levels of the building at \<open>k\<close> are left alone by everything a
  tick of the tile \<open>k\<close> does besides the level completion and the first lines of
  \<^verbatim>\<open>tickTile\<close>.
\<close>

lemma shapeOf_update:
  "shapeOf (b\<lparr>resources := r\<rparr>) = shapeOf b"
  "shapeOf (b\<lparr>electrification := e\<rparr>) = shapeOf b"
  by (simp_all add: shapeOf_def)

lemma map_of_setBuilding:
  "map_of (tiles (setBuilding j b st)) k =
     (if k = j then map_option (\<lambda>t. t\<lparr>building := Some b\<rparr>) (map_of (tiles st) j)
      else map_of (tiles st) k)"
  by (simp add: setBuilding_def map_of_map_entry split: option.splits)

lemma tiles_frame:
  "tiles (useWorkers r n w st) = tiles st"
  "tiles (setReason j rs st) = tiles st"
  "tiles (deleteReason j st) = tiles st"
  "tiles (notify ev0 st) = tiles st"
  "tiles (addTransportation ev res amt f fa src dst st) = tiles st"
  by (simp_all add: useWorkers_def setReason_def deleteReason_def notify_def addTransportation_def)

lemma shapeAt_frame:
  "shapeAt (useWorkers r n w st) k = shapeAt st k"
  "shapeAt (setReason j rs st) k = shapeAt st k"
  "shapeAt (deleteReason j st) k = shapeAt st k"
  "shapeAt (notify ev0 st) k = shapeAt st k"
  "shapeAt (addTransportation ev res amt f fa src dst st) k = shapeAt st k"
  by (simp_all add: shapeAt_def tiles_frame)

lemma shapeAt_tickNext: "shapeAt (st\<lparr>tickNext := n\<rparr>) k = shapeAt st k"
  by (simp add: shapeAt_def)

lemma shapeAt_tickCurrent: "shapeAt (st\<lparr>tickCurrent := n\<rparr>) k = shapeAt st k"
  by (simp add: shapeAt_def)

lemma shapeAt_setBuilding_other: "k \<noteq> j \<Longrightarrow> shapeAt (setBuilding j b st) k = shapeAt st k"
  by (simp add: shapeAt_def map_of_setBuilding)

lemma shapeAt_setBuilding_same:
  "shapeAt st k = Some sl \<Longrightarrow> shapeAt (setBuilding k b st) k = Some (shapeOf b)"
  by (auto simp: shapeAt_def map_of_setBuilding split: option.splits)

lemma commitTransport_shape:
  "commitTransport ev b res amt fa src dst st = Inr st' \<Longrightarrow> k \<noteq> src \<Longrightarrow> shapeAt st' k = shapeAt st k"
  by (auto simp: commitTransport_def shapeAt_frame shapeAt_setBuilding_other
      split: option.splits number.splits)

lemma transportLoop_shape:
  "transportLoop ev res wc k ps amt st = Inr st' \<Longrightarrow> shapeAt st' k = shapeAt st k"
proof (induction ps arbitrary: amt st st')
  case Nil
  then show ?case by simp
next
  case (Cons p ps)
  show ?case
  proof (cases "k = pointToXy ev p")
    case True
    then show ?thesis
      using Cons.prems Cons.IH by (auto split: option.splits)
  next
    case False
    have commit: "\<And>b a fa s s'. commitTransport ev b res a fa (pointToXy ev p) k s = Inr s'
                    \<Longrightarrow> shapeAt s' k = shapeAt s k"
      using commitTransport_shape [OF _ False] by blast
    show ?thesis
      using Cons.prems False
      by (auto simp: Let_def split: option.splits sum.splits if_splits dest!: commit Cons.IH)
  qed
qed

lemma transportResource_shape:
  "transportResource ev res amt wc k st = Inr st' \<Longrightarrow> shapeAt st' k = shapeAt st k"
  by (auto simp: transportResource_def Let_def shapeAt_tickCurrent
      split: if_splits option.splits dest!: transportLoop_shape)

lemma costScan_shape:
  "forEach cost (costStep ev k b) (c, st) = Inr (c', st') \<Longrightarrow> shapeAt st' k = shapeAt st k"
proof (induction cost arbitrary: c st)
  case Nil
  then show ?case by simp
next
  case (Cons ra cost)
  obtain res amt where ra: "ra = (res, amt)" by (cases ra)
  show ?case
    using Cons.prems Cons.IH unfolding ra
    by (auto simp: costStep_def shapeAt_frame split: if_splits sum.splits
        dest!: transportResource_shape)
qed

lemma inputScan_shape:
  "forEach inp (inputStep ev k b wc tot us) (h, st) = Inr (h', st') \<Longrightarrow> shapeAt st' k = shapeAt st k"
proof (induction inp arbitrary: h st)
  case Nil
  then show ?case by simp
next
  case (Cons ra inp)
  obtain res amt where ra: "ra = (res, amt)" by (cases ra)
  show ?case
    using Cons.prems Cons.IH unfolding ra
    by (auto simp: inputStep_def shapeAt_frame split: if_splits sum.splits
        dest!: transportResource_shape)
qed

lemma autopilotCandidates_shape:
  "autopilotCandidates ev src k tc cs cap t st = Inr (r, cap', t', st') \<Longrightarrow> k \<noteq> src
     \<Longrightarrow> shapeAt st' k = shapeAt st k"
proof (induction cs arbitrary: cap t st)
  case Nil
  then show ?case by simp
next
  case (Cons c cs)
  show ?case
    using Cons.prems Cons.IH
    by (auto simp: shapeAt_frame shapeAt_setBuilding_other Let_def
        split: option.splits sum.splits if_splits number.splits)
qed

lemma autopilotSources_shape:
  "autopilotSources ev k tc ps cap t st = Inr (t', st') \<Longrightarrow> shapeAt st' k = shapeAt st k"
proof (induction ps arbitrary: cap t st)
  case Nil
  then show ?case by simp
next
  case (Cons p ps)
  show ?case
    using Cons.prems Cons.IH
    by (auto split: option.splits sum.splits if_splits dest!: autopilotCandidates_shape)
qed

lemma tickWarehouseAutopilot_shape:
  "tickWarehouseAutopilot ev wh k st = Inr (t', st') \<Longrightarrow> shapeAt st' k = shapeAt st k"
  by (auto simp: tickWarehouseAutopilot_def Let_def split: sum.splits if_splits
      dest!: autopilotSources_shape)

lemma autopilotPhase_shape:
  "autopilotPhase ev k b (t, st) = Inr (t', st') \<Longrightarrow> shapeAt st' k = shapeAt st k"
  by (auto simp: autopilotPhase_def split: option.splits if_splits
      dest!: tickWarehouseAutopilot_shape)

lemma map_of_buildings:
  "map_of ts k = Some ti \<Longrightarrow> building ti = Some b
     \<Longrightarrow> map_of (List.map_filter (\<lambda>(j, t). map_option (\<lambda>b. (j, b)) (building t)) ts) k = Some b"
proof (induction ts)
  case Nil
  then show ?case by simp
next
  case (Cons jt ts)
  obtain j t where jt: "jt = (j, t)" by (cases jt)
  show ?case
    using Cons unfolding jt
    by (cases "building t") (auto simp: List.map_filter_simps split: if_splits)
qed

lemma getXyBuildings_shape:
  assumes "map_of (getXyBuildings st) k = Some b" "shapeAt st k = Some sl"
  shows "sl = shapeOf b"
proof -
  from assms(2) obtain ti b' where t: "map_of (tiles st) k = Some ti" "building ti = Some b'"
    and sl: "sl = shapeOf b'"
    by (auto simp: shapeAt_def split: option.splits)
  from map_of_buildings [OF t] assms(1) have "b' = b" by (simp add: getXyBuildings_def)
  with sl show ?thesis by simp
qed

lemma marketScan_shape:
  "forEach rs (marketStep ev k tot us) (bought, st) = Inr (bought', st') \<Longrightarrow> shapeAt st k = Some sl
     \<Longrightarrow> shapeAt st' k = Some sl"
proof (induction rs arbitrary: bought st)
  case Nil
  then show ?case by simp
next
  case (Cons ru rs)
  obtain r u where ru: "ru = (r, u)" by (cases ru)
  from Cons.prems obtain stop bought1 st1 where
    step: "marketStep ev k tot us r u (bought, st) = Inr (stop, bought1, st1)"
    unfolding ru by (auto split: sum.splits)
  have "shapeAt st1 k = Some sl"
    using step Cons.prems(2) getXyBuildings_shape [of st k _ sl]
    by (auto simp: marketStep_def Let_def shapeAt_frame shapeAt_setBuilding_same shapeOf_update
        split: option.splits if_splits)
  moreover have "\<not> stop"
    using step by (auto simp: marketStep_def Let_def split: option.splits if_splits)
  ultimately show ?case
    using Cons.prems(1) Cons.IH step unfolding ru by auto
qed

lemma tickMarket_shape:
  assumes "tickMarket ev k b offline tot us st = Inr st'" "shapeAt st k = Some sl"
  shows "shapeAt st' k = Some sl"
proof -
  from assms(1) obtain bought st1 where
    scan: "forEach (map (\<lambda>r. (r, ())) (sellResources b)) (marketStep ev k tot us) (0, st)
             = Inr (bought, st1)"
    and st': "st' = notify (BuildingProductionComplete k offline) st1 \<or> st' = st1"
    by (auto simp: tickMarket_def split: sum.splits if_splits)
  from marketScan_shape [OF scan assms(2)] st' show ?thesis
    by (auto simp: shapeAt_frame)
qed

lemma creditBuilding_shape:
  "creditBuilding j res v st = Inr st' \<Longrightarrow> shapeAt st' k = shapeAt st k"
  by (cases "k = j")
    (auto simp: creditBuilding_def shapeAt_def map_of_setBuilding shapeOf_update
      split: option.splits)

lemma outputScan_shape:
  "forEach outp (produceOutput ev k) st = Inr st' \<Longrightarrow> shapeAt st' k = shapeAt st k"
proof (induction outp arbitrary: st)
  case Nil
  then show ?case by simp
next
  case (Cons ra outp)
  obtain res v where ra: "ra = (res, v)" by (cases ra)
  show ?case
    using Cons.prems Cons.IH unfolding ra
    by (auto simp: produceOutput_def shapeAt_tickNext split: if_splits sum.splits
        dest!: creditBuilding_shape)
qed

lemma electrify_shape:
  "electrify ev k b st = (b1, st1) \<Longrightarrow>
     shapeOf b1 = shapeOf b \<and> shapeAt st1 k = shapeAt st k"
  by (auto simp: electrify_def Let_def shapeAt_tickNext shapeAt_frame shapeOf_def split: if_splits)

lemma produce_shape:
  assumes "produce ev k b offline w inp outp st = Inr st'" "shapeAt st k = Some (shapeOf b)"
  shows "shapeAt st' k = Some (shapeOf b)"
proof -
  obtain b1 st1 where e: "electrify ev k b st = (b1, st1)" by (cases "electrify ev k b st")
  note es = electrify_shape [OF e]
  from assms(1) e obtain st2 where
    scan: "forEach outp (produceOutput ev k)
             (setBuilding k (b1\<lparr>resources := deductResources ev (resources b1) inp\<rparr>)
                (useWorkers ''Worker'' w (Some k) st1)) = Inr st2"
    and st': "st' = notify (BuildingProductionComplete k offline) st2"
    by (auto simp: produce_def split: sum.splits)
  have "shapeAt (setBuilding k (b1\<lparr>resources := deductResources ev (resources b1) inp\<rparr>)
                (useWorkers ''Worker'' w (Some k) st1)) k = Some (shapeOf b)"
    using es assms(2) shapeAt_setBuilding_same [of "useWorkers ''Worker'' w (Some k) st1" k]
    by (simp add: shapeAt_frame shapeOf_update)
  then show ?thesis
    using outputScan_shape [OF scan] st' by (simp add: shapeAt_frame)
qed

lemma tickProduction_shape:
  assumes "tickProduction ev k b offline w inp outp tot us st = Inr st'"
    "shapeAt st k = Some (shapeOf b)"
  shows "shapeAt st' k = Some (shapeOf b)"
  using assms produce_shape [of ev k b offline w inp outp st st']
    shapeAt_setBuilding_same [of "useWorkers ''Worker'' (byproductWorkers ev k outp st) (Some k) st" k
      "shapeOf b" "b\<lparr>resources := deductResources ev (resources b) inp\<rparr>"]
  by (auto simp: tickProduction_def Let_def shapeAt_frame shapeAt_tickNext byproductWorkers_def
      shapeOf_update split: if_splits)

lemma tickCompleted_shape:
  assumes "tickCompleted ev k ti b offline st = Inr st'" "shapeAt st k = Some (shapeOf b)"
  shows "shapeAt st' k = Some (shapeOf b)"
proof -
  let ?st2 = "indexResources ev k b (registerTile ev k b st)"
  have s2: "shapeAt ?st2 k = Some (shapeOf b)"
    using assms(2) by (simp add: indexResources_def registerTile_def Let_def shapeAt_tickNext)
  show ?thesis
  proof (cases "missingDeposit ev ti b \<or> capacity b \<le> 0")
    case True
    then show ?thesis
      using assms(1) s2 by (auto simp: tickCompleted_def Let_def shapeAt_frame split: if_splits)
  next
    case False
    from assms(1) False obtain h st3 t st4 where
      inputs: "forEach (filterTransportable ev (getBuildingIO ev k Input (registerTile ev k b st)))
                 (inputStep ev k b (totalMultiplierFor ev k ''worker'' 1 ?st2)
                    (fst (getStorageFor ev k ?st2)) (snd (getStorageFor ev k ?st2)))
                 (False, ?st2) = Inr (h, st3)"
      and pilot: "autopilotPhase ev k b (h, st3) = Inr (t, st4)"
      by (auto simp: tickCompleted_def Let_def split: sum.splits)
    have s4: "shapeAt st4 k = Some (shapeOf b)"
      using inputScan_shape [OF inputs] autopilotPhase_shape [OF pilot] s2 by simp
    show ?thesis
      using assms(1) False inputs pilot s4
        tickMarket_shape [of ev k b offline _ _ _ st' "shapeOf b"]
        tickProduction_shape [of ev k b offline _ _ _ _ _ _ st']
      by (auto simp: tickCompleted_def Let_def shapeAt_frame split: if_splits)
  qed
qed

lemma completeLevel_shape:
  assumes "shapeAt st k = Some sl" "defaultsKeepShape ev"
  shows "shapeAt (completeLevel ev k b cost st) k =
           Some (if status b = Building \<or> (status b = Upgrading \<and> desiredLevel b \<le> level b + 1)
                 then Completed else status b,
                 level b + 1, desiredLevel b)"
proof -
  have d: "\<And>d x. buildingDefaults ev (btype b) = Some d \<Longrightarrow> shapeOf (d x) = shapeOf x"
    using assms(2) by (auto simp: defaultsKeepShape_def)
  have again: "\<And>b1 b2 s. shapeAt s k = Some sl \<Longrightarrow>
      shapeAt (setBuilding k b2 (notify (BuildingComplete k) (setBuilding k b1 s))) k = Some (shapeOf b2)"
    by (simp add: shapeAt_setBuilding_same shapeAt_frame)
  show ?thesis
    using assms(1) d
    by (cases "buildingDefaults ev (btype b)")
      (auto simp: completeLevel_def Let_def again shapeAt_setBuilding_same shapeOf_update
        shapeOf_def)
qed

lemma tickConstruction_shape:
  assumes "tickConstruction ev k b st = Inr st'" "shapeAt st k = Some (shapeOf b)"
    "defaultsKeepShape ev"
  shows "shapeAt st' k = Some (shapeOf b) \<or>
         shapeAt st' k =
           Some (if status b = Building \<or> (status b = Upgrading \<and> desiredLevel b \<le> level b + 1)
                 then Completed else status b,
                 level b + 1, desiredLevel b)"
proof -
  from assms(1) obtain c st1 where
    scan: "forEach (getBuildingCost ev b) (costStep ev k b) (True, st) = Inr (c, st1)"
    and st': "st' = (if c then completeLevel ev k b (getBuildingCost ev b) st1 else st1)"
    by (auto simp: tickConstruction_def split: sum.splits if_splits)
  have s1: "shapeAt st1 k = Some (shapeOf b)"
    using costScan_shape [OF scan] assms(2) by simp
  show ?thesis
    using st' s1 completeLevel_shape [OF s1 assms(3), of b "getBuildingCost ev b"]
    by (cases c) simp_all
qed

text \<open>
  One tick of a tile, read at the building of that tile: the level stays or goes up by
  one, and the status stays, or goes from \<open>Building\<close> to \<open>Completed\<close>, from
  \<open>Completed\<close> to \<open>Upgrading\<close>, from \<open>Upgrading\<close> to \<open>Completed\<close> with
  the desired level reached, or from \<open>Building\<close> to \<open>Upgrading\<close> when the desired
  level was above the level.
\<close>

lemma tickTile_status_level:
  assumes tick: "tickTile ev k offline st = Inr st'" and defaults: "defaultsKeepShape ev"
  shows "\<exists>s0 l0 d0 s' l' d'.
           shapeAt st k = Some (s0, l0, d0) \<and> shapeAt st' k = Some (s', l', d') \<and> l0 \<le> l' \<and>
           (s' = s0 \<or> (s0 = Building \<and> s' = Completed) \<or> (s0 = Completed \<and> s' = Upgrading) \<or>
            (s0 = Upgrading \<and> s' = Completed \<and> d' \<le> l') \<or>
            (s0 = Building \<and> s' = Upgrading \<and> l0 < d0))"
proof -
  from tick obtain ti b0 where t: "map_of (tiles st) k = Some ti" "building ti = Some b0"
    by (auto simp: tickTile_def split: option.splits)
  have s0: "shapeAt st k = Some (shapeOf b0)"
    using t by (simp add: shapeAt_def)
  show ?thesis
  proof (cases "status b0 = Paused \<or> (isNaturalWonder ev (btype b0) \<and> \<not> explored ti)")
    case True
    then have "st' = st" using tick t by (auto simp: tickTile_def split: if_splits)
    then show ?thesis using s0 by (simp add: shapeOf_def)
  next
    case active: False
    then have np: "status b0 = Building \<or> status b0 = Upgrading \<or> status b0 = Completed"
      by (cases "status b0") simp_all
    define b where "b = (if desiredLevel b0 > level b0 then b0\<lparr>status := Upgrading\<rparr>
                         else b0\<lparr>desiredLevel := level b0\<rparr>)"
    have sb: "shapeAt (setBuilding k b st) k = Some (shapeOf b)"
      using s0 by (rule shapeAt_setBuilding_same)
    show ?thesis
    proof (cases "status b = Building \<or> status b = Upgrading")
      case True
      then have "tickConstruction ev k b (setBuilding k b st) = Inr st'"
        using tick t active unfolding b_def by (auto simp: tickTile_def Let_def)
      from tickConstruction_shape [OF this sb defaults] True s0 np show ?thesis
        by (auto simp: shapeOf_def b_def split: if_splits)
    next
      case notBuilding: False
      then have "tickCompleted ev k ti b offline (setBuilding k b st) = Inr st'"
        using tick t active unfolding b_def by (auto simp: tickTile_def Let_def)
      from tickCompleted_shape [OF this sb] notBuilding s0 np show ?thesis
        by (auto simp: shapeOf_def b_def split: if_splits)
    qed
  qed
qed

lemma defaultsKeepShape_example: "defaultsKeepShape exampleEnv"
  by (simp add: defaultsKeepShape_def exampleEnv_def)

text \<open>
  Whatever its status, a building that is not paused and whose desired level is above
  its level is ticked as one under upgrade.
\<close>

lemma tickTile_raises_to_upgrading:
  assumes "map_of (tiles st) k = Some ti" "building ti = Some b0"
    and "status b0 \<noteq> Paused" "\<not> (isNaturalWonder ev (btype b0) \<and> \<not> explored ti)"
    and "level b0 < desiredLevel b0"
  shows "tickTile ev k offline st =
           tickConstruction ev k (b0\<lparr>status := Upgrading\<rparr>) (setBuilding k (b0\<lparr>status := Upgrading\<rparr>) st)"
  using assms by (auto simp: tickTile_def Let_def)

text \<open>
  Claim C9 at a hut under construction whose desired level 2 is above its level 1, with
  no labor: after the tick its status is \<open>Upgrading\<close>, without having been
  \<open>Completed\<close>.
\<close>

theorem building_turns_upgrading:
  "map_option (map_option status \<circ> building)
     (map_of (tiles (exampleState (siteExample Building 2) 0)) ''0,0'') = Some (Some Building) \<and>
   map_sum id (\<lambda>s. map_option (map_option status \<circ> building) (map_of (tiles s) ''0,0''))
     (tickTile exampleEnv ''0,0'' True (exampleState (siteExample Building 2) 0))
     = Inr (Some (Some Upgrading))"
  by (simp add: tickTile_def tickConstruction_def costStep_def getAvailableWorkers_def lookup0_def
      setBuilding_def setReason_def siteExample_def example_defs)

subsection \<open>The tick and the clock\<close>

lemma tickPrice_bucket:
  "getPriceId now = getPriceId now' \<Longrightarrow> tickPrice ev now st = tickPrice ev now' st"
  by (simp add: tickPrice_def)

lemma tickEverySecond_bucket:
  assumes "getPriceId (dateNow am) = getPriceId (dateNow am')"
    and "offline \<or> shouldTick am = shouldTick am'"
  shows "tickEverySecond ev am offline st = tickEverySecond ev am' offline st"
  using assms tickPrice_bucket [of "dateNow am" "dateNow am'" ev]
  by (auto simp: tickEverySecond_def Let_def)

lemma tickGameState_bucket:
  "\<forall>i<n. getPriceId (dateNow (am i)) = getPriceId (dateNow (am' i))
     \<Longrightarrow> tickGameState ev am n st = tickGameState ev am' n st"
proof (induction n arbitrary: am am' st)
  case 0
  then show ?case by simp
next
  case (Suc n)
  have first: "tickEverySecond ev (am 0) True st = tickEverySecond ev (am' 0) True st"
    using Suc.prems by (intro tickEverySecond_bucket) auto
  have rest: "\<And>s. tickGameState ev (\<lambda>i. am (Suc i)) n s = tickGameState ev (\<lambda>i. am' (Suc i)) n s"
    using Suc.prems by (intro Suc.IH) auto
  show ?case by (simp add: first rest cong: sum.case_cong)
qed

text \<open>
  Claim C1, as the module has it. A tick reads the clock, and reads it only for its
  hour bucket: two runs from the same state with the same configuration give the
  same result when their clocks are in the same hour bucket and, unless offline,
  \<^verbatim>\<open>shouldTick\<close> answers the same; so do two runs of \<open>n\<close> offline ticks whose clocks
  are in the same bucket tick by tick.
\<close>

theorem tick_deterministic_within_hour:
  "(getPriceId (dateNow am1) = getPriceId (dateNow am2) \<and> (offline \<or> shouldTick am1 = shouldTick am2)
      \<longrightarrow> tickEverySecond ev am1 offline st = tickEverySecond ev am2 offline st) \<and>
   ((\<forall>i<n. getPriceId (dateNow (am i)) = getPriceId (dateNow (am' i)))
      \<longrightarrow> tickGameState ev am n st = tickGameState ev am' n st)"
  using tickEverySecond_bucket [of am1 am2 offline ev st] tickGameState_bucket [of n am am' ev st]
  by blast

text \<open>The hour bucket a tick has read is what it leaves in \<^verbatim>\<open>lastPriceUpdated\<close>.\<close>

lemma capital_tick:
  "map_sum id lastPriceUpdated
     (tickEverySecond exampleEnv (clockAt now) True (exampleState capitalExample 0))
     = Inr (getPriceId now)"
  by (simp add: tickEverySecond_def tickPrice_def tickTransportations_def mausoleum_def
      tickTiles_def sortedTiles_def sortBy_def getXyBuildings_def List.map_filter_def
      tickTile_def creditBuilding_def setBuilding_def notify_def priceMarket_def
      capitalExample_def example_defs Let_def clockAt_def)

text \<open>
  Claim C1 as the spec words it fails: from the same state, one offline tick at time 0
  and one an hour later end in different states.
\<close>

theorem tick_depends_on_clock:
  "tickEverySecond exampleEnv (clockAt 0) True (exampleState capitalExample 0)
     \<noteq> tickEverySecond exampleEnv (clockAt 3600000) True (exampleState capitalExample 0)"
proof
  assume "tickEverySecond exampleEnv (clockAt 0) True (exampleState capitalExample 0)
     = tickEverySecond exampleEnv (clockAt 3600000) True (exampleState capitalExample 0)"
  then have "getPriceId 0 = getPriceId 3600000"
    using capital_tick [of 0] capital_tick [of 3600000] by simp
  then show False by (simp add: getPriceId_def HOUR_def)
qed

text \<open>C1 at clocks within the first hour, for one tick and for two.\<close>

theorem tick_deterministic_within_hour_witness:
  "getPriceId (dateNow (clockAt 5)) = getPriceId (dateNow (clockAt 7)) \<and>
   tickEverySecond exampleEnv (clockAt 5) True (exampleState capitalExample 0)
     = tickEverySecond exampleEnv (clockAt 7) True (exampleState capitalExample 0) \<and>
   tickGameState exampleEnv (\<lambda>i. clockAt (5 + int i)) 2 (exampleState capitalExample 0)
     = tickGameState exampleEnv (\<lambda>i. clockAt (7 + 2 * int i)) 2 (exampleState capitalExample 0)"
proof -
  have h: "getPriceId (dateNow (clockAt 5)) = getPriceId (dateNow (clockAt 7))"
    by (simp add: getPriceId_def HOUR_def clockAt_def)
  have hs: "\<forall>i<2. getPriceId (dateNow (clockAt (5 + int i))) = getPriceId (dateNow (clockAt (7 + 2 * int i)))"
    by (simp add: getPriceId_def HOUR_def clockAt_def less_Suc_eq numeral_2_eq_2)
  show ?thesis
    using h hs
      tick_deterministic_within_hour [of "clockAt 5" "clockAt 7" True exampleEnv
        "exampleState capitalExample 0" 2 "\<lambda>i. clockAt (5 + int i)" "\<lambda>i. clockAt (7 + 2 * int i)"]
    by blast
qed

end
